theory Spec2Isabelle
  imports Main "HOL-Library.Word" "HOL-Library.Sublist"
begin

unbundle bit_operations_syntax

section \<open>JavaScript values used by the protocol engine\<close>

text \<open>
  Numbers that the engine handles are integers (addresses, counts, bytes, register values);
  they are modelled as \<open>int\<close>. A \<open>Buffer\<close> is a sequence of bytes. An \<open>Error\<close> carries its
  message. The range errors of Node's \<open>Buffer.writeUInt8\<close> and \<open>writeUInt16BE/LE\<close> are
  written with their error code as message; the engine only ever inspects whether a message
  starts with \<open>MODBUS_ERROR_CODE_\<close>.
\<close>

type_synonym byte = "8 word"
type_synonym Buffer = "byte list"

datatype Error = Error (message: string)

definition ERR_OUT_OF_RANGE :: Error where
  "ERR_OUT_OF_RANGE = Error ''ERR_OUT_OF_RANGE''"

text \<open>Bitwise operators of JavaScript work on the 32-bit two's complement of their operands.\<close>

definition js_or :: "int \<Rightarrow> int \<Rightarrow> int" where
  "js_or a b = sint ((word_of_int a :: 32 word) OR word_of_int b)"

definition js_and :: "int \<Rightarrow> int \<Rightarrow> int" where
  "js_and a b = sint ((word_of_int a :: 32 word) AND word_of_int b)"

definition js_not :: "int \<Rightarrow> int" where
  "js_not a = sint (NOT (word_of_int a :: 32 word))"

text \<open>The remainder operator \<open>%\<close> takes the sign of the dividend.\<close>

definition js_rem :: "int \<Rightarrow> int \<Rightarrow> int" where
  "js_rem a b = sgn a * (\<bar>a\<bar> mod \<bar>b\<bar>)"

section \<open>Address range check (utils/checkRange.ts)\<close>

text \<open>
  \<open>value: number | number[]\<close> and \<open>range?: [number, number] | [number, number][]\<close>.
  The source tells the two shapes of \<open>range\<close> apart by
  \<open>typeof range[0] === 'number' && typeof range[1] === 'number'\<close>; here the shape is the
  constructor. An absent range is \<open>None\<close>.
\<close>

datatype Value = Scalar int | Array "int list"

datatype Range = Single int int | Multi "(int \<times> int) list"

definition toArray :: "Value \<Rightarrow> int list" where
  "toArray v = (case v of Scalar n \<Rightarrow> [n] | Array ns \<Rightarrow> ns)"

definition every :: "('a \<Rightarrow> bool) \<Rightarrow> 'a list \<Rightarrow> bool" where
  "every p xs = list_all p xs"

text \<open>The \<open>for (const r of range)\<close> loop, followed by \<open>return false\<close>.\<close>

fun checkRange_loop :: "Value \<Rightarrow> (int \<times> int) list \<Rightarrow> bool" where
  "checkRange_loop v [] = False"
| "checkRange_loop v (r # rs) =
     (if fst r < snd r \<and> every (\<lambda>n. n \<ge> fst r \<and> n \<le> snd r) (toArray v) then True
      else checkRange_loop v rs)"

definition checkRange :: "Value \<Rightarrow> Range option \<Rightarrow> bool" where
  "checkRange v rng =
     (case rng of
        None \<Rightarrow> True
      | Some (Single lo hi) \<Rightarrow>
          (if lo < hi then every (\<lambda>n. n \<ge> lo \<and> n \<le> hi) (toArray v) else True)
      | Some (Multi rs) \<Rightarrow>
          (if length rs > 0 then checkRange_loop v rs else True))"

section \<open>Exception codes (error-code.ts)\<close>

datatype ErrorCode =
    ILLEGAL_FUNCTION
  | ILLEGAL_DATA_ADDRESS
  | ILLEGAL_DATA_VALUE
  | SERVER_DEVICE_FAILURE
  | ACKNOWLEDGE
  | SERVER_DEVICE_BUSY
  | MEMORY_PARITY_ERROR
  | GATEWAY_PATH_UNAVAILABLE
  | GATEWAY_TARGET_DEVICE_FAILED_TO_RESPOND

text \<open>The numeric value of each member of the enum.\<close>

fun ErrorCode_value :: "ErrorCode \<Rightarrow> int" where
  "ErrorCode_value ILLEGAL_FUNCTION = 0x01"
| "ErrorCode_value ILLEGAL_DATA_ADDRESS = 0x02"
| "ErrorCode_value ILLEGAL_DATA_VALUE = 0x03"
| "ErrorCode_value SERVER_DEVICE_FAILURE = 0x04"
| "ErrorCode_value ACKNOWLEDGE = 0x05"
| "ErrorCode_value SERVER_DEVICE_BUSY = 0x06"
| "ErrorCode_value MEMORY_PARITY_ERROR = 0x08"
| "ErrorCode_value GATEWAY_PATH_UNAVAILABLE = 0x0a"
| "ErrorCode_value GATEWAY_TARGET_DEVICE_FAILED_TO_RESPOND = 0x0b"

definition PREFIX :: string where
  "PREFIX = ''MODBUS_ERROR_CODE_''"

text \<open>String concatenation \<open>PREFIX + code\<close> writes the number in decimal.\<close>

definition digitChar :: "nat \<Rightarrow> char" where
  "digitChar d = char_of (48 + d)"

fun Number_toString :: "nat \<Rightarrow> string" where
  "Number_toString n =
     (if 10 \<le> n then Number_toString (n div 10) @ [digitChar (n mod 10)] else [digitChar n])"

declare Number_toString.simps [simp del]

definition String_of :: "int \<Rightarrow> string" where
  "String_of i = (if 0 \<le> i then Number_toString (nat i) else CHR ''-'' # Number_toString (nat (- i)))"

definition getErrorByCode :: "ErrorCode \<Rightarrow> Error" where
  "getErrorByCode code = Error (PREFIX @ String_of (ErrorCode_value code))"

text \<open>
  \<open>Number(s)\<close> on a string. The embedding follows it on the strings of at most fifteen
  decimal digits, which convert exactly (the empty string converts to 0). On every other
  string the result is \<open>None\<close>: a value that this embedding does not follow (\<open>NaN\<close> for
  most of them, but also what JavaScript reads from signs, fractions, exponents, hexadecimal
  literals, surrounding white space and longer literals).
\<close>

definition digit_value :: "char \<Rightarrow> int option" where
  "digit_value c =
     (if 48 \<le> (of_char c :: nat) \<and> (of_char c :: nat) \<le> 57 then Some (int (of_char c) - 48)
      else None)"

fun parse_digits :: "string \<Rightarrow> int \<Rightarrow> int option" where
  "parse_digits [] acc = Some acc"
| "parse_digits (c # cs) acc =
     (case digit_value c of None \<Rightarrow> None | Some d \<Rightarrow> parse_digits cs (10 * acc + d))"

definition Number_of_string :: "string \<Rightarrow> int option" where
  "Number_of_string s = (if length s \<le> 15 then parse_digits s 0 else None)"

text \<open>\<open>err.message.startsWith(PREFIX)\<close>, then \<open>Number(err.message.slice(PREFIX.length))\<close>.\<close>

definition getCodeByError :: "Error \<Rightarrow> int option" where
  "getCodeByError err =
     (if prefix PREFIX (message err) then Number_of_string (drop (length PREFIX) (message err))
      else Some (ErrorCode_value SERVER_DEVICE_FAILURE))"

section \<open>Buffers and application data units (types.ts)\<close>

text \<open>
  \<open>ApplicationDataUnit\<close> has an optional transaction id, a unit, a function code and the
  PDU data; a decoded frame is an \<open>ApplicationDataUnit & { buffer: Buffer }\<close>.
\<close>

record ApplicationDataUnit =
  transaction :: "int option"
  unit :: int
  fc :: int
  data :: "int list"

record Frame = ApplicationDataUnit +
  buffer :: Buffer

text \<open>
  \<open>buf.writeUInt8(v, i)\<close> and \<open>buf.writeUInt16BE/LE(v, i)\<close> throw a range error when the
  value lies outside the unsigned range. The writers below return the bytes written.
\<close>

definition writeUInt8 :: "int \<Rightarrow> Error + Buffer" where
  "writeUInt8 v = (if 0 \<le> v \<and> v \<le> 255 then Inr [word_of_int v] else Inl ERR_OUT_OF_RANGE)"

definition writeUInt16BE :: "int \<Rightarrow> Error + Buffer" where
  "writeUInt16BE v =
     (if 0 \<le> v \<and> v \<le> 65535 then Inr [word_of_int (v div 256), word_of_int (v mod 256)]
      else Inl ERR_OUT_OF_RANGE)"

definition writeUInt16LE :: "int \<Rightarrow> Error + Buffer" where
  "writeUInt16LE v =
     (if 0 \<le> v \<and> v \<le> 65535 then Inr [word_of_int (v mod 256), word_of_int (v div 256)]
      else Inl ERR_OUT_OF_RANGE)"

text \<open>\<open>data.forEach((num, index) => buffer.writeUInt8(num, offset + index))\<close>.\<close>

fun writeUInt8_forEach :: "int list \<Rightarrow> Error + Buffer" where
  "writeUInt8_forEach [] = Inr []"
| "writeUInt8_forEach (num # nums) =
     (case writeUInt8 num of
        Inl e \<Rightarrow> Inl e
      | Inr b \<Rightarrow> (case writeUInt8_forEach nums of Inl e \<Rightarrow> Inl e | Inr bs \<Rightarrow> Inr (b @ bs)))"

text \<open>
  Reads. Every call of the source stands under a length check that keeps the offset inside
  the buffer; the definitions are used under the same checks.
\<close>

definition readUInt8 :: "Buffer \<Rightarrow> nat \<Rightarrow> int" where
  "readUInt8 b i = uint (b ! i)"

definition readUInt16BE :: "Buffer \<Rightarrow> nat \<Rightarrow> int" where
  "readUInt16BE b i = 256 * uint (b ! i) + uint (b ! (i + 1))"

definition readUInt16LE :: "Buffer \<Rightarrow> nat \<Rightarrow> int" where
  "readUInt16LE b i = uint (b ! i) + 256 * uint (b ! (i + 1))"

text \<open>\<open>buf.subarray(start, end)\<close> for \<open>0 \<le> start\<close>, and \<open>Array.from\<close> of a buffer.\<close>

definition subarray :: "'a list \<Rightarrow> nat \<Rightarrow> nat \<Rightarrow> 'a list" where
  "subarray b start stop = take (stop - start) (drop start b)"

definition Array_from :: "Buffer \<Rightarrow> int list" where
  "Array_from b = map uint b"

text \<open>\<open>Buffer.from(array)\<close> keeps the low eight bits of every number.\<close>

definition Buffer_from :: "int list \<Rightarrow> Buffer" where
  "Buffer_from xs = map word_of_int xs"

section \<open>Pre-checks of the response-wait mode\<close>

text \<open>
  A pre-check returns \<open>boolean | number | undefined\<close>. The loop over the pre-checks is
  written three times in the source, once per framer; the RTU and the TCP layer compare
  \<open>res < frame.data.length\<close>, the ASCII layer compares \<open>frame.data.length < res\<close>.
  The result is the error handed to the callback, or \<open>None\<close> when the loop runs through.
\<close>

datatype PreCheckResult = Boolean bool | Number int | Undefined

type_synonym PreCheck = "Frame \<Rightarrow> PreCheckResult"

fun preCheck_rtu_tcp :: "PreCheck list \<Rightarrow> Frame \<Rightarrow> Error option" where
  "preCheck_rtu_tcp [] frame = None"
| "preCheck_rtu_tcp (check # checks) frame =
     (case check frame of
        Undefined \<Rightarrow> Some (Error ''Insufficient data length'')
      | Number res \<Rightarrow>
          (if res < int (length (data frame)) then Some (Error ''Insufficient data length'')
           else if res \<noteq> int (length (data frame)) then Some (Error ''Invalid response'')
           else if res = 0 then Some (Error ''Invalid response'')
           else preCheck_rtu_tcp checks frame)
      | Boolean res \<Rightarrow>
          (if \<not> res then Some (Error ''Invalid response'')
           else preCheck_rtu_tcp checks frame))"

fun preCheck_ascii :: "PreCheck list \<Rightarrow> Frame \<Rightarrow> Error option" where
  "preCheck_ascii [] frame = None"
| "preCheck_ascii (check # checks) frame =
     (case check frame of
        Undefined \<Rightarrow> Some (Error ''Insufficient data length'')
      | Number res \<Rightarrow>
          (if int (length (data frame)) < res then Some (Error ''Insufficient data length'')
           else if int (length (data frame)) \<noteq> res then Some (Error ''Invalid response'')
           else if res = 0 then Some (Error ''Invalid response'')
           else preCheck_ascii checks frame)
      | Boolean res \<Rightarrow>
          (if \<not> res then Some (Error ''Invalid response'')
           else preCheck_ascii checks frame))"

section \<open>Sequencing of calls that may throw\<close>

definition bind_err :: "Error + 'a \<Rightarrow> ('a \<Rightarrow> Error + 'b) \<Rightarrow> Error + 'b" where
  "bind_err m f = (case m of Inl e \<Rightarrow> Inl e | Inr x \<Rightarrow> f x)"

section \<open>RTU application layer (rtu-application-layer.ts)\<close>

text \<open>
  \<open>crc\<close> is imported from \<open>utils\<close> and is not among the sources; it is a parameter, a
  function from the bytes to a 16-bit checksum. \<open>framing(buffer, callback)\<close> calls its
  callback exactly once; the model returns what the callback receives. The argument
  \<open>waitingResponse\<close> is the \<open>preCheck\<close> list of \<open>this._waitingResponse\<close>, if any.
\<close>

definition RtuApplicationLayer_framing ::
  "(Buffer \<Rightarrow> 16 word) \<Rightarrow> PreCheck list option \<Rightarrow> Buffer \<Rightarrow> Error + Frame" where
  "RtuApplicationLayer_framing crc waitingResponse buf =
     (if length buf \<ge> 4 then
        (let frame = \<lparr>transaction = None, unit = readUInt8 buf 0, fc = readUInt8 buf 1,
                       data = Array_from (subarray buf 2 (length buf - 2)), buffer = buf\<rparr>
         in case (case waitingResponse of None \<Rightarrow> None
                  | Some preCheck \<Rightarrow> preCheck_rtu_tcp preCheck frame) of
              Some e \<Rightarrow> Inl e
            | None \<Rightarrow>
                (if readUInt16LE buf (length buf - 2) = uint (crc (subarray buf 0 (length buf - 2)))
                 then Inr frame
                 else Inl (Error ''CRC check failed'')))
      else Inl (Error ''Insufficient data length''))"

definition RtuApplicationLayer_encode ::
  "(Buffer \<Rightarrow> 16 word) \<Rightarrow> 'a ApplicationDataUnit_scheme \<Rightarrow> Error + Buffer" where
  "RtuApplicationLayer_encode crc d =
     bind_err (writeUInt8 (unit d)) (\<lambda>u.
     bind_err (writeUInt8 (fc d)) (\<lambda>f.
     bind_err (writeUInt8_forEach (data d)) (\<lambda>ds.
     bind_err (writeUInt16LE (uint (crc (u @ f @ ds)))) (\<lambda>c.
     Inr (u @ f @ ds @ c)))))"

section \<open>MBAP/TCP application layer (tcp-application-layer.ts)\<close>

record TcpApplicationLayer =
  tcp_waitingResponse :: "PreCheck list option"
  tcp_transactionId :: int

definition TcpApplicationLayer_init :: TcpApplicationLayer where
  "TcpApplicationLayer_init = \<lparr>tcp_waitingResponse = None, tcp_transactionId = 1\<rparr>"

definition TcpApplicationLayer_framing :: "PreCheck list option \<Rightarrow> Buffer \<Rightarrow> Error + Frame" where
  "TcpApplicationLayer_framing waitingResponse buf =
     (if length buf \<ge> 8 then
        (if buf ! 2 = 0 \<and> buf ! 3 = 0 \<and> readUInt16BE buf 4 = int (length buf) - 6 then
           (let frame = \<lparr>transaction = Some (readUInt16BE buf 0), unit = readUInt8 buf 6,
                          fc = readUInt8 buf 7, data = Array_from (drop 8 buf), buffer = buf\<rparr>
            in case (case waitingResponse of None \<Rightarrow> None
                     | Some preCheck \<Rightarrow> preCheck_rtu_tcp preCheck frame) of
                 Some e \<Rightarrow> Inl e
               | None \<Rightarrow> Inr frame)
         else Inl (Error ''Invalid data''))
      else Inl (Error ''Insufficient data length''))"

text \<open>
  \<open>encode\<close> writes the header and the PDU and then advances the counter:
  \<open>this._transactionId = (this._transactionId + 1) % 256 || 1\<close>. A write that throws leaves
  the counter as it was.
\<close>

definition TcpApplicationLayer_encode ::
  "'a ApplicationDataUnit_scheme \<Rightarrow> TcpApplicationLayer \<Rightarrow> Error + (Buffer \<times> TcpApplicationLayer)" where
  "TcpApplicationLayer_encode d this =
     bind_err (writeUInt16BE (case transaction d of Some t \<Rightarrow> t | None \<Rightarrow> tcp_transactionId this)) (\<lambda>t.
     bind_err (writeUInt16BE 0) (\<lambda>p.
     bind_err (writeUInt16BE (int (length (data d)) + 2)) (\<lambda>l.
     bind_err (writeUInt8 (unit d)) (\<lambda>u.
     bind_err (writeUInt8 (fc d)) (\<lambda>f.
     bind_err (writeUInt8_forEach (data d)) (\<lambda>ds.
     Inr (t @ p @ l @ u @ f @ ds,
          this\<lparr>tcp_transactionId :=
            (if js_rem (tcp_transactionId this + 1) 256 = 0 then 1
             else js_rem (tcp_transactionId this + 1) 256)\<rparr>)))))))"

text \<open>
  A sequence of \<open>encode\<close> calls on one layer; a call that throws leaves the layer as it was.
\<close>

fun TcpApplicationLayer_encode_calls ::
  "'a ApplicationDataUnit_scheme list \<Rightarrow> TcpApplicationLayer \<Rightarrow> TcpApplicationLayer" where
  "TcpApplicationLayer_encode_calls [] this = this"
| "TcpApplicationLayer_encode_calls (d # ds) this =
     TcpApplicationLayer_encode_calls ds
       (case TcpApplicationLayer_encode d this of Inl e \<Rightarrow> this | Inr r \<Rightarrow> snd r)"

section \<open>Longitudinal redundancy check (utils/lrc.ts)\<close>

definition lrc :: "Buffer \<Rightarrow> int" where
  "lrc bs = js_and (js_not (sum_list (map uint bs)) + 1) 0xff"

section \<open>ASCII application layer\<close>

definition COLON :: byte where "COLON = 58"
definition CR :: byte where "CR = 13"
definition LF :: byte where "LF = 10"

text \<open>
  \<open>Number('0x' + num)\<close> for the two characters of \<open>num\<close>, stored into a buffer. Two
  hexadecimal digits give their value; a hexadecimal digit followed by a white-space
  character gives the digit (the conversion strips white space at both ends); everything
  else converts to \<open>NaN\<close>, which a buffer stores as 0.
\<close>

definition hexDigit :: "byte \<Rightarrow> int option" where
  "hexDigit c =
     (if 48 \<le> uint c \<and> uint c \<le> 57 then Some (uint c - 48)
      else if 65 \<le> uint c \<and> uint c \<le> 70 then Some (uint c - 55)
      else if 97 \<le> uint c \<and> uint c \<le> 102 then Some (uint c - 87)
      else None)"

definition isWhiteSpace :: "byte \<Rightarrow> bool" where
  "isWhiteSpace c = (uint c \<in> {9, 10, 11, 12, 13, 32, 160})"

definition Number_0x :: "byte \<Rightarrow> byte \<Rightarrow> byte" where
  "Number_0x a b =
     (case hexDigit a of
        None \<Rightarrow> 0
      | Some h \<Rightarrow>
          (case hexDigit b of
             Some l \<Rightarrow> word_of_int (16 * h + l)
           | None \<Rightarrow> if isWhiteSpace b then word_of_int h else 0))"

text \<open>The loop that pairs the characters; a last unpaired character is dropped.\<close>

fun hexPairs :: "Buffer \<Rightarrow> Buffer" where
  "hexPairs (a # b # rest) = Number_0x a b # hexPairs rest"
| "hexPairs [a] = []"
| "hexPairs [] = []"

text \<open>\<open>value.toString(16).toUpperCase().padStart(2, '0')\<close>.\<close>

definition hexChar :: "int \<Rightarrow> byte" where
  "hexChar n = (if n < 10 then word_of_int (48 + n) else word_of_int (55 + n))"

definition toHex2 :: "byte \<Rightarrow> Buffer" where
  "toHex2 v = [hexChar (uint v div 16), hexChar (uint v mod 16)]"

datatype Status = idle | reception | waiting_end

subsection \<open>The layer with response-wait mode (src/unnamed/part_004)\<close>

record AsciiApplicationLayer =
  ascii_waitingResponse :: "PreCheck list option"
  ascii_status :: Status
  ascii_frame :: Buffer

definition AsciiApplicationLayer_framing :: "PreCheck list option \<Rightarrow> Buffer \<Rightarrow> Error + Frame" where
  "AsciiApplicationLayer_framing waitingResponse buf0 =
     (if length buf0 \<ge> 6 then
        (if length buf0 mod 2 = 0 then
           (let buf = hexPairs buf0;
                frame = \<lparr>transaction = None, unit = readUInt8 buf 0, fc = readUInt8 buf 1,
                          data = Array_from (subarray buf 2 (length buf - 1)), buffer = buf0\<rparr>
            in case (case waitingResponse of None \<Rightarrow> None
                     | Some preCheck \<Rightarrow> preCheck_ascii preCheck frame) of
                 Some e \<Rightarrow> Inl e
               | None \<Rightarrow>
                   (if readUInt8 buf (length buf - 1) = lrc (subarray buf 0 (length buf - 1))
                    then Inr frame
                    else Inl (Error ''LRC check failed'')))
         else Inl (Error ''Invalid data''))
      else Inl (Error ''Insufficient data length''))"

definition AsciiApplicationLayer_encode :: "'a ApplicationDataUnit_scheme \<Rightarrow> Error + Buffer" where
  "AsciiApplicationLayer_encode d =
     bind_err (writeUInt8 (unit d)) (\<lambda>u.
     bind_err (writeUInt8 (fc d)) (\<lambda>f.
     bind_err (writeUInt8_forEach (data d)) (\<lambda>ds.
     bind_err (writeUInt8 (lrc (u @ f @ ds))) (\<lambda>l.
     Inr (COLON # concat (map toHex2 (u @ f @ ds @ l)) @ [CR, LF])))))"

text \<open>
  What the data handler does with a decoded frame: in response-wait mode it calls the
  pending callback with the error or the frame, otherwise it emits \<open>framing\<close> for a frame
  and drops an error. The callback belongs to the caller of \<open>startWaitingResponse\<close>; its
  effect on the layer is the parameter \<open>cb\<close> (the client's callback calls
  \<open>stopWaitingResponse\<close>).
\<close>

datatype Event = Framing Frame | Callback "Error + Frame"

definition AsciiApplicationLayer_handleByte ::
  "(Error + Frame \<Rightarrow> AsciiApplicationLayer \<Rightarrow> AsciiApplicationLayer) \<Rightarrow>
   AsciiApplicationLayer \<times> Event list \<Rightarrow> byte \<Rightarrow> AsciiApplicationLayer \<times> Event list" where
  "AsciiApplicationLayer_handleByte cb st v =
     (let this = fst st; out = snd st in
      case ascii_status this of
        idle \<Rightarrow>
          (if v = COLON then (this\<lparr>ascii_status := reception, ascii_frame := []\<rparr>, out)
           else (this, out))
      | reception \<Rightarrow>
          (if v = COLON then (this\<lparr>ascii_frame := []\<rparr>, out)
           else if v = CR then (this\<lparr>ascii_status := waiting_end\<rparr>, out)
           else (this\<lparr>ascii_frame := ascii_frame this @ [v]\<rparr>, out))
      | waiting_end \<Rightarrow>
          (if v = COLON then (this\<lparr>ascii_status := reception, ascii_frame := []\<rparr>, out)
           else if v = LF then
             (let this1 = this\<lparr>ascii_status := idle\<rparr>;
                  r = AsciiApplicationLayer_framing (ascii_waitingResponse this1) (ascii_frame this1)
              in case ascii_waitingResponse this1 of
                   Some w \<Rightarrow> (cb r this1, out @ [Callback r])
                 | None \<Rightarrow>
                     (case r of Inr frame \<Rightarrow> (this1, out @ [Framing frame])
                      | Inl e \<Rightarrow> (this1, out)))
           else (this\<lparr>ascii_status := idle\<rparr>, out)))"

definition AsciiApplicationLayer_handleData ::
  "(Error + Frame \<Rightarrow> AsciiApplicationLayer \<Rightarrow> AsciiApplicationLayer) \<Rightarrow>
   AsciiApplicationLayer \<Rightarrow> Buffer \<Rightarrow> AsciiApplicationLayer \<times> Event list" where
  "AsciiApplicationLayer_handleData cb this bytes =
     foldl (AsciiApplicationLayer_handleByte cb) (this, []) bytes"

definition AsciiApplicationLayer_handleClose :: "AsciiApplicationLayer \<Rightarrow> AsciiApplicationLayer" where
  "AsciiApplicationLayer_handleClose this = this\<lparr>ascii_status := idle, ascii_frame := []\<rparr>"

subsection \<open>The layer without response-wait mode (src/unnamed/part_003)\<close>

record AsciiApplicationLayer0 =
  ascii0_status :: Status
  ascii0_frame :: Buffer

definition AsciiApplicationLayer0_framing :: "Buffer \<Rightarrow> Frame option" where
  "AsciiApplicationLayer0_framing buf0 =
     (if length buf0 \<ge> 6 \<and> length buf0 mod 2 = 0 then
        (let buf = hexPairs buf0 in
         if readUInt8 buf (length buf - 1) = lrc (subarray buf 0 (length buf - 1)) then
           Some \<lparr>transaction = None, unit = readUInt8 buf 0, fc = readUInt8 buf 1,
                 data = Array_from (subarray buf 2 (length buf - 1)), buffer = buf0\<rparr>
         else None)
      else None)"

definition AsciiApplicationLayer0_handleByte ::
  "AsciiApplicationLayer0 \<times> Event list \<Rightarrow> byte \<Rightarrow> AsciiApplicationLayer0 \<times> Event list" where
  "AsciiApplicationLayer0_handleByte st v =
     (let this = fst st; out = snd st in
      case ascii0_status this of
        idle \<Rightarrow>
          (if v = COLON then (this\<lparr>ascii0_status := reception, ascii0_frame := []\<rparr>, out)
           else (this, out))
      | reception \<Rightarrow>
          (if v = COLON then (this\<lparr>ascii0_frame := []\<rparr>, out)
           else if v = CR then (this\<lparr>ascii0_status := waiting_end\<rparr>, out)
           else (this\<lparr>ascii0_frame := ascii0_frame this @ [v]\<rparr>, out))
      | waiting_end \<Rightarrow>
          (if v = COLON then (this\<lparr>ascii0_status := reception, ascii0_frame := []\<rparr>, out)
           else if v = LF then
             (case AsciiApplicationLayer0_framing (ascii0_frame this) of
                Some frame \<Rightarrow> (this\<lparr>ascii0_status := idle\<rparr>, out @ [Framing frame])
              | None \<Rightarrow> (this\<lparr>ascii0_status := idle\<rparr>, out))
           else (this\<lparr>ascii0_status := idle\<rparr>, out)))"

definition AsciiApplicationLayer0_handleData ::
  "AsciiApplicationLayer0 \<Rightarrow> Buffer \<Rightarrow> AsciiApplicationLayer0 \<times> Event list" where
  "AsciiApplicationLayer0_handleData this bytes =
     foldl AsciiApplicationLayer0_handleByte (this, []) bytes"

definition AsciiApplicationLayer0_handleClose :: "AsciiApplicationLayer0 \<Rightarrow> AsciiApplicationLayer0" where
  "AsciiApplicationLayer0_handleClose this = this\<lparr>ascii0_status := reception, ascii0_frame := []\<rparr>"

section \<open>Server (modbus-slave.ts): the unit model and the world it acts on\<close>

text \<open>
  A model callback is \<open>FConvertPromise<F>\<close>: it returns a value or a promise. Its outcome is
  a value (returned, or a fulfilled promise), a rejection, or an exception thrown by the
  call itself. Callbacks act on the host's device state \<open>'d\<close>; each call takes effect when
  it is made.
\<close>

datatype 'r Outcome = Resolved 'r | Rejected Error | Thrown Error

record AddressRange =
  discreteInputs :: "Range option"
  coils :: "Range option"
  inputRegisters :: "Range option"
  holdingRegisters :: "Range option"

record ServerId =
  serverId :: "int option"
  runIndicatorStatus :: "bool option"
  additionalData :: "int list option"

text \<open>
  \<open>readDeviceIdentification\<close> returns an object \<open>{ [index: number]: string }\<close>; it is given
  by the list of its \<open>Object.entries\<close>. A string is a list of code units below 256.
\<close>

record 'd ModbusSlaveModel =
  model_unit :: "int option"
  interceptor :: "(int \<Rightarrow> int list \<Rightarrow> 'd \<Rightarrow> int list option Outcome \<times> 'd) option"
  readDiscreteInputs :: "(int \<Rightarrow> int \<Rightarrow> 'd \<Rightarrow> bool list Outcome \<times> 'd) option"
  readCoils :: "(int \<Rightarrow> int \<Rightarrow> 'd \<Rightarrow> bool list Outcome \<times> 'd) option"
  writeSingleCoil :: "(int \<Rightarrow> bool \<Rightarrow> 'd \<Rightarrow> unit Outcome \<times> 'd) option"
  writeMultipleCoils :: "(int \<Rightarrow> bool list \<Rightarrow> 'd \<Rightarrow> unit Outcome \<times> 'd) option"
  readInputRegisters :: "(int \<Rightarrow> int \<Rightarrow> 'd \<Rightarrow> int list Outcome \<times> 'd) option"
  readHoldingRegisters :: "(int \<Rightarrow> int \<Rightarrow> 'd \<Rightarrow> int list Outcome \<times> 'd) option"
  writeSingleRegister :: "(int \<Rightarrow> int \<Rightarrow> 'd \<Rightarrow> unit Outcome \<times> 'd) option"
  writeMultipleRegisters :: "(int \<Rightarrow> int list \<Rightarrow> 'd \<Rightarrow> unit Outcome \<times> 'd) option"
  maskWriteRegister :: "(int \<Rightarrow> int \<Rightarrow> int \<Rightarrow> 'd \<Rightarrow> unit Outcome \<times> 'd) option"
  reportServerId :: "('d \<Rightarrow> ServerId Outcome \<times> 'd) option"
  readDeviceIdentification :: "('d \<Rightarrow> (string \<times> string) list Outcome \<times> 'd) option"
  getAddressRange :: "AddressRange option"

text \<open>\<open>model.getAddressRange?.().coils\<close> and its three siblings.\<close>

definition rangeOf :: "(AddressRange \<Rightarrow> Range option) \<Rightarrow> 'd ModbusSlaveModel \<Rightarrow> Range option" where
  "rangeOf sel model = (case getAddressRange model of None \<Rightarrow> None | Some r \<Rightarrow> sel r)"

text \<open>
  The world of a server: the state \<open>app\<close> of its application layer, the device state
  \<open>dev\<close> behind the callbacks, the buffers \<open>sent\<close> handed to the transport's reply closure
  \<open>_response\<close> so far, and a flag \<open>unmodelled\<close> that is raised when the server builds an
  exception response from an error message whose number this embedding does not follow.
  The application layer is given by its \<open>encode\<close>; an \<open>encode\<close> that throws leaves
  the layer as it was.
\<close>

record ('a, 'd) World =
  app :: 'a
  dev :: 'd
  sent :: "Buffer list"
  unmodelled :: bool

type_synonym 'a Encode = "Frame \<Rightarrow> 'a \<Rightarrow> Error + (Buffer \<times> 'a)"

type_synonym ('a, 'd) Response = "Buffer \<Rightarrow> ('a, 'd) World \<Rightarrow> ('a, 'd) World"

text \<open>
  The closure \<open>response\<close> of the \<open>framing\<close> handler: nothing for a broadcast frame,
  otherwise \<open>_response(data)\<close> with its failure swallowed.
\<close>

definition response_closure :: "Frame \<Rightarrow> ('a, 'd) Response" where
  "response_closure frame buf w = (if unit frame = 0x00 then w else w\<lparr>sent := sent w @ [buf]\<rparr>)"

text \<open>
  \<open>responseError\<close>: \<open>response(encode({ ...frame, fc: frame.fc | 0x80, data: [getCodeByError(error)] }))\<close>.
  It is called from \<open>catch\<close> handlers and from the handlers' own branches; when \<open>encode\<close>
  throws there, nothing is sent.
\<close>

definition responseError ::
  "'a Encode \<Rightarrow> Frame \<Rightarrow> ('a, 'd) Response \<Rightarrow> Error \<Rightarrow> ('a, 'd) World \<Rightarrow> ('a, 'd) World" where
  "responseError encode frame response error w =
     (case getCodeByError error of
        None \<Rightarrow> w\<lparr>unmodelled := True\<rparr>
      | Some code \<Rightarrow>
          (case encode (frame\<lparr>fc := js_or (fc frame) 0x80, data := [code]\<rparr>) (app w) of
             Inl e \<Rightarrow> w
           | Inr r \<Rightarrow> response (fst r) (w\<lparr>app := snd r\<rparr>)))"

text \<open>
  The body \<open>response(encode(adu))\<close> of a \<open>then\<close> handler, with the \<open>catch\<close> that follows it:
  an \<open>encode\<close> that throws ends in \<open>responseError\<close>.
\<close>

definition respond ::
  "'a Encode \<Rightarrow> Frame \<Rightarrow> ('a, 'd) Response \<Rightarrow> Frame \<Rightarrow> ('a, 'd) World \<Rightarrow> ('a, 'd) World" where
  "respond encode frame response adu w =
     (case encode adu (app w) of
        Inl e \<Rightarrow> responseError encode frame response e w
      | Inr r \<Rightarrow> response (fst r) (w\<lparr>app := snd r\<rparr>))"

text \<open>
  \<open>Promise.resolve(callback(...)).then(ok).catch(error => responseError(frame, response, error))\<close>:
  a callback that throws takes the handler with it (nothing is sent), a rejection ends in
  \<open>responseError\<close>, a value goes to the \<open>then\<close> handler.
\<close>

definition settle ::
  "'a Encode \<Rightarrow> Frame \<Rightarrow> ('a, 'd) Response \<Rightarrow> 'r Outcome \<times> 'd \<Rightarrow>
   ('r \<Rightarrow> ('a, 'd) World \<Rightarrow> ('a, 'd) World) \<Rightarrow> ('a, 'd) World \<Rightarrow> ('a, 'd) World" where
  "settle encode frame response result ok w =
     (case fst result of
        Thrown e \<Rightarrow> w\<lparr>dev := snd result\<rparr>
      | Rejected e \<Rightarrow> responseError encode frame response e (w\<lparr>dev := snd result\<rparr>)
      | Resolved v \<Rightarrow> ok v (w\<lparr>dev := snd result\<rparr>))"

section \<open>Server: packing and unpacking of coils and registers\<close>

text \<open>
  \<open>coils.forEach((coil, index) => { if (coil) bufferTx[~~(index / 8)] |= 1 << index % 8 })\<close>;
  a store beyond the end of a buffer is ignored.
\<close>

fun setCoilBits :: "Buffer \<Rightarrow> nat \<Rightarrow> bool list \<Rightarrow> Buffer" where
  "setCoilBits bufferTx index [] = bufferTx"
| "setCoilBits bufferTx index (coil # rest) =
     setCoilBits
       (if coil \<and> index div 8 < length bufferTx
        then bufferTx[index div 8 := (bufferTx ! (index div 8)) OR push_bit (index mod 8) 1]
        else bufferTx)
       (Suc index) rest"

text \<open>\<open>Math.ceil(length / 8)\<close> for an integer \<open>length\<close>.\<close>

definition ceil8 :: "int \<Rightarrow> int" where
  "ceil8 n = (n + 7) div 8"

definition packCoils :: "int \<Rightarrow> bool list \<Rightarrow> Buffer" where
  "packCoils len cs = setCoilBits (replicate (nat (ceil8 len)) 0) 0 cs"

text \<open>
  \<open>registers.forEach((register, index) => bufferTx.writeUInt16BE(register, index * 2))\<close> on a
  buffer of \<open>length * 2\<close> zero bytes; a value or an offset out of range throws.
\<close>

fun writeRegisters :: "Buffer \<Rightarrow> nat \<Rightarrow> int list \<Rightarrow> Error + Buffer" where
  "writeRegisters bufferTx index [] = Inr bufferTx"
| "writeRegisters bufferTx index (register # rest) =
     (case writeUInt16BE register of
        Inl e \<Rightarrow> Inl e
      | Inr b \<Rightarrow>
          (if index * 2 + 2 \<le> length bufferTx
           then writeRegisters (bufferTx[index * 2 := b ! 0, index * 2 + 1 := b ! 1]) (Suc index) rest
           else Inl ERR_OUT_OF_RANGE))"

definition packRegisters :: "int \<Rightarrow> int list \<Rightarrow> Error + Buffer" where
  "packRegisters len registers = writeRegisters (replicate (nat (len * 2)) 0) 0 registers"

text \<open>
  \<open>Array.from({ length }).map((_, index) => (bufferRx[5 + ~~(index / 8)] & (1 << index % 8)) > 0)\<close>;
  a read beyond the end of the buffer is \<open>undefined\<close>, whose bits are all 0.
\<close>

definition unpackCoils :: "Buffer \<Rightarrow> int \<Rightarrow> bool list" where
  "unpackCoils bufferRx len =
     map (\<lambda>index. 5 + index div 8 < length bufferRx \<and> bit (bufferRx ! (5 + index div 8)) (index mod 8))
       [0 ..< nat len]"

text \<open>
  \<open>Array.from({ length }).map((_, index) => bufferRx.readUInt16BE(offset + index * 2))\<close>; a read
  beyond the end of the buffer throws.
\<close>

fun readRegisters :: "Buffer \<Rightarrow> nat \<Rightarrow> nat \<Rightarrow> Error + int list" where
  "readRegisters bufferRx offset 0 = Inr []"
| "readRegisters bufferRx offset (Suc n) =
     (if offset + 2 \<le> length bufferRx then
        (case readRegisters bufferRx (offset + 2) n of
           Inl e \<Rightarrow> Inl e
         | Inr vs \<Rightarrow> Inr (readUInt16BE bufferRx offset # vs))
      else Inl ERR_OUT_OF_RANGE)"

text \<open>
  \<open>Promise.all(value.map((v, i) => single(address + i, v)))\<close>: the calls are made one after
  the other; a call that throws ends the loop and the handler; otherwise the first
  rejection, if any, is the rejection of the whole.
\<close>

fun writeEach ::
  "(int \<Rightarrow> 'v \<Rightarrow> 'd \<Rightarrow> unit Outcome \<times> 'd) \<Rightarrow> int \<Rightarrow> 'v list \<Rightarrow> 'd \<Rightarrow> unit Outcome \<times> 'd" where
  "writeEach single address [] d = (Resolved (), d)"
| "writeEach single address (v # vs) d =
     (case fst (single address v d) of
        Thrown e \<Rightarrow> (Thrown e, snd (single address v d))
      | Rejected e \<Rightarrow>
          (case fst (writeEach single (address + 1) vs (snd (single address v d))) of
             Thrown e' \<Rightarrow> (Thrown e', snd (writeEach single (address + 1) vs (snd (single address v d))))
           | _ \<Rightarrow> (Rejected e, snd (writeEach single (address + 1) vs (snd (single address v d)))))
      | Resolved u \<Rightarrow> writeEach single (address + 1) vs (snd (single address v d)))"

section \<open>Server: the handlers of the read requests and of the single writes\<close>

definition handleFC1 ::
  "'a Encode \<Rightarrow> 'd ModbusSlaveModel \<Rightarrow> Frame \<Rightarrow> ('a, 'd) Response \<Rightarrow> ('a, 'd) World \<Rightarrow> ('a, 'd) World" where
  "handleFC1 encode model frame response w =
     (if length (data frame) = 4 then
        (case readCoils model of
           Some callback \<Rightarrow>
             (let bufferRx = Buffer_from (data frame);
                  address = readUInt16BE bufferRx 0;
                  len = readUInt16BE bufferRx 2
              in if len \<ge> 0x0001 \<and> len \<le> 0x07d0 then
                   (if checkRange (Array [address, address + len]) (rangeOf coils model) then
                      settle encode frame response (callback address len (dev w))
                        (\<lambda>cs. respond encode frame response
                           (frame\<lparr>data := int (length (packCoils len cs)) # Array_from (packCoils len cs)\<rparr>)) w
                    else responseError encode frame response (getErrorByCode ILLEGAL_DATA_ADDRESS) w)
                 else responseError encode frame response (getErrorByCode ILLEGAL_DATA_VALUE) w)
         | None \<Rightarrow> responseError encode frame response (getErrorByCode ILLEGAL_FUNCTION) w)
      else w)"

definition handleFC2 ::
  "'a Encode \<Rightarrow> 'd ModbusSlaveModel \<Rightarrow> Frame \<Rightarrow> ('a, 'd) Response \<Rightarrow> ('a, 'd) World \<Rightarrow> ('a, 'd) World" where
  "handleFC2 encode model frame response w =
     (if length (data frame) = 4 then
        (case readDiscreteInputs model of
           Some callback \<Rightarrow>
             (let bufferRx = Buffer_from (data frame);
                  address = readUInt16BE bufferRx 0;
                  len = readUInt16BE bufferRx 2
              in if len \<ge> 0x0001 \<and> len \<le> 0x07d0 then
                   (if checkRange (Array [address, address + len]) (rangeOf discreteInputs model) then
                      settle encode frame response (callback address len (dev w))
                        (\<lambda>cs. respond encode frame response
                           (frame\<lparr>data := int (length (packCoils len cs)) # Array_from (packCoils len cs)\<rparr>)) w
                    else responseError encode frame response (getErrorByCode ILLEGAL_DATA_ADDRESS) w)
                 else responseError encode frame response (getErrorByCode ILLEGAL_DATA_VALUE) w)
         | None \<Rightarrow> responseError encode frame response (getErrorByCode ILLEGAL_FUNCTION) w)
      else w)"

text \<open>
  The \<open>then\<close> handler of the register reads: pack the registers, respond; what it throws
  goes to the \<open>catch\<close>.
\<close>

definition respondRegisters ::
  "'a Encode \<Rightarrow> Frame \<Rightarrow> ('a, 'd) Response \<Rightarrow> int \<Rightarrow> int list \<Rightarrow> ('a, 'd) World \<Rightarrow> ('a, 'd) World" where
  "respondRegisters encode frame response len registers w =
     (case packRegisters len registers of
        Inl e \<Rightarrow> responseError encode frame response e w
      | Inr bufferTx \<Rightarrow>
          respond encode frame response
            (frame\<lparr>data := int (length bufferTx) # Array_from bufferTx\<rparr>) w)"

definition handleFC3 ::
  "'a Encode \<Rightarrow> 'd ModbusSlaveModel \<Rightarrow> Frame \<Rightarrow> ('a, 'd) Response \<Rightarrow> ('a, 'd) World \<Rightarrow> ('a, 'd) World" where
  "handleFC3 encode model frame response w =
     (if length (data frame) = 4 then
        (case readHoldingRegisters model of
           Some callback \<Rightarrow>
             (let bufferRx = Buffer_from (data frame);
                  address = readUInt16BE bufferRx 0;
                  len = readUInt16BE bufferRx 2
              in if len \<ge> 0x0001 \<and> len \<le> 0x007d then
                   (if checkRange (Array [address, address + len]) (rangeOf holdingRegisters model) then
                      settle encode frame response (callback address len (dev w))
                        (respondRegisters encode frame response len) w
                    else responseError encode frame response (getErrorByCode ILLEGAL_DATA_ADDRESS) w)
                 else responseError encode frame response (getErrorByCode ILLEGAL_DATA_VALUE) w)
         | None \<Rightarrow> responseError encode frame response (getErrorByCode ILLEGAL_FUNCTION) w)
      else w)"

definition handleFC4 ::
  "'a Encode \<Rightarrow> 'd ModbusSlaveModel \<Rightarrow> Frame \<Rightarrow> ('a, 'd) Response \<Rightarrow> ('a, 'd) World \<Rightarrow> ('a, 'd) World" where
  "handleFC4 encode model frame response w =
     (if length (data frame) = 4 then
        (case readInputRegisters model of
           Some callback \<Rightarrow>
             (let bufferRx = Buffer_from (data frame);
                  address = readUInt16BE bufferRx 0;
                  len = readUInt16BE bufferRx 2
              in if len \<ge> 0x0001 \<and> len \<le> 0x007d then
                   (if checkRange (Array [address, address + len]) (rangeOf inputRegisters model) then
                      settle encode frame response (callback address len (dev w))
                        (respondRegisters encode frame response len) w
                    else responseError encode frame response (getErrorByCode ILLEGAL_DATA_ADDRESS) w)
                 else responseError encode frame response (getErrorByCode ILLEGAL_DATA_VALUE) w)
         | None \<Rightarrow> responseError encode frame response (getErrorByCode ILLEGAL_FUNCTION) w)
      else w)"

definition handleFC5 ::
  "'a Encode \<Rightarrow> 'd ModbusSlaveModel \<Rightarrow> Frame \<Rightarrow> ('a, 'd) Response \<Rightarrow> ('a, 'd) World \<Rightarrow> ('a, 'd) World" where
  "handleFC5 encode model frame response w =
     (if length (data frame) = 4 then
        (case writeSingleCoil model of
           Some callback \<Rightarrow>
             (let bufferRx = Buffer_from (data frame);
                  address = readUInt16BE bufferRx 0;
                  val = readUInt16BE bufferRx 2
              in if val = 0x0000 \<or> val = 0xff00 then
                   (if checkRange (Scalar address) (rangeOf coils model) then
                      settle encode frame response (callback address (val = 0xff00) (dev w))
                        (\<lambda>u. respond encode frame response frame) w
                    else responseError encode frame response (getErrorByCode ILLEGAL_DATA_ADDRESS) w)
                 else responseError encode frame response (getErrorByCode ILLEGAL_DATA_VALUE) w)
         | None \<Rightarrow> responseError encode frame response (getErrorByCode ILLEGAL_FUNCTION) w)
      else w)"

definition handleFC6 ::
  "'a Encode \<Rightarrow> 'd ModbusSlaveModel \<Rightarrow> Frame \<Rightarrow> ('a, 'd) Response \<Rightarrow> ('a, 'd) World \<Rightarrow> ('a, 'd) World" where
  "handleFC6 encode model frame response w =
     (if length (data frame) = 4 then
        (case writeSingleRegister model of
           Some callback \<Rightarrow>
             (let bufferRx = Buffer_from (data frame);
                  address = readUInt16BE bufferRx 0;
                  val = readUInt16BE bufferRx 2
              in if val \<ge> 0x0000 \<and> val \<le> 0xffff then
                   (if checkRange (Scalar address) (rangeOf holdingRegisters model) then
                      settle encode frame response (callback address val (dev w))
                        (\<lambda>u. respond encode frame response frame) w
                    else responseError encode frame response (getErrorByCode ILLEGAL_DATA_ADDRESS) w)
                 else responseError encode frame response (getErrorByCode ILLEGAL_DATA_VALUE) w)
         | None \<Rightarrow> responseError encode frame response (getErrorByCode ILLEGAL_FUNCTION) w)
      else w)"

section \<open>Server: the handlers of the multiple writes\<close>

text \<open>
  \<open>multi ? multi(address, value) : Promise.all(value.map((v, i) => single!(address + i, v)))\<close>;
  calling an absent \<open>single\<close> throws a type error.
\<close>

definition multiOrEach ::
  "(int \<Rightarrow> 'v list \<Rightarrow> 'd \<Rightarrow> unit Outcome \<times> 'd) option \<Rightarrow>
   (int \<Rightarrow> 'v \<Rightarrow> 'd \<Rightarrow> unit Outcome \<times> 'd) option \<Rightarrow> int \<Rightarrow> 'v list \<Rightarrow> 'd \<Rightarrow> unit Outcome \<times> 'd" where
  "multiOrEach multi single address val d =
     (case multi of
        Some callback \<Rightarrow> callback address val d
      | None \<Rightarrow>
          (case single of
             Some callback \<Rightarrow> writeEach callback address val d
           | None \<Rightarrow> (Thrown (Error ''model.writeSingle is not a function''), d)))"

definition handleFC15 ::
  "'a Encode \<Rightarrow> 'd ModbusSlaveModel \<Rightarrow> Frame \<Rightarrow> ('a, 'd) Response \<Rightarrow> ('a, 'd) World \<Rightarrow> ('a, 'd) World" where
  "handleFC15 encode model frame response w =
     (if length (data frame) > 5 \<and> int (length (data frame)) = 5 + data frame ! 4 then
        (if writeMultipleCoils model \<noteq> None \<or> writeSingleCoil model \<noteq> None then
           (let bufferRx = Buffer_from (data frame);
                address = readUInt16BE bufferRx 0;
                len = readUInt16BE bufferRx 2;
                byteCount = readUInt8 bufferRx 4
            in if len \<ge> 0x0001 \<and> len \<le> 0x07b0 \<and> byteCount = ceil8 len then
                 (if checkRange (Array [address, address + len]) (rangeOf coils model) then
                    settle encode frame response
                      (multiOrEach (writeMultipleCoils model) (writeSingleCoil model) address
                         (unpackCoils bufferRx len) (dev w))
                      (\<lambda>u. respond encode frame response (frame\<lparr>data := take 4 (Array_from bufferRx)\<rparr>)) w
                  else responseError encode frame response (getErrorByCode ILLEGAL_DATA_ADDRESS) w)
               else responseError encode frame response (getErrorByCode ILLEGAL_DATA_VALUE) w)
         else responseError encode frame response (getErrorByCode ILLEGAL_FUNCTION) w)
      else w)"

definition handleFC16 ::
  "'a Encode \<Rightarrow> 'd ModbusSlaveModel \<Rightarrow> Frame \<Rightarrow> ('a, 'd) Response \<Rightarrow> ('a, 'd) World \<Rightarrow> ('a, 'd) World" where
  "handleFC16 encode model frame response w =
     (if length (data frame) > 5 \<and> int (length (data frame)) = 5 + data frame ! 4 then
        (if writeMultipleRegisters model \<noteq> None \<or> writeSingleRegister model \<noteq> None then
           (let bufferRx = Buffer_from (data frame);
                address = readUInt16BE bufferRx 0;
                len = readUInt16BE bufferRx 2;
                byteCount = readUInt8 bufferRx 4
            in if len \<ge> 0x0001 \<and> len \<le> 0x007b \<and> byteCount = len * 2 then
                 (if checkRange (Array [address, address + len]) (rangeOf holdingRegisters model) then
                    (case readRegisters bufferRx 5 (nat len) of
                       Inl e \<Rightarrow> w
                     | Inr val \<Rightarrow>
                         settle encode frame response
                           (multiOrEach (writeMultipleRegisters model) (writeSingleRegister model) address
                              val (dev w))
                           (\<lambda>u. respond encode frame response (frame\<lparr>data := take 4 (Array_from bufferRx)\<rparr>)) w)
                  else responseError encode frame response (getErrorByCode ILLEGAL_DATA_ADDRESS) w)
               else responseError encode frame response (getErrorByCode ILLEGAL_DATA_VALUE) w)
         else responseError encode frame response (getErrorByCode ILLEGAL_FUNCTION) w)
      else w)"

section \<open>Server: report server id, mask write, read/write multiple registers\<close>

definition handleFC17 ::
  "'a Encode \<Rightarrow> 'd ModbusSlaveModel \<Rightarrow> Frame \<Rightarrow> ('a, 'd) Response \<Rightarrow> ('a, 'd) World \<Rightarrow> ('a, 'd) World" where
  "handleFC17 encode model frame response w =
     (if length (data frame) = 0 then
        (case reportServerId model of
           Some callback \<Rightarrow>
             settle encode frame response (callback (dev w))
               (\<lambda>r. let sid = (case serverId r of Some x \<Rightarrow> x
                                | None \<Rightarrow> (case model_unit model of Some u \<Rightarrow> u | None \<Rightarrow> 1));
                         run = (case runIndicatorStatus r of Some b \<Rightarrow> b | None \<Rightarrow> True);
                         more = (case additionalData r of Some xs \<Rightarrow> xs | None \<Rightarrow> [])
                     in respond encode frame response
                          (frame\<lparr>data := [2 + int (length more), sid, if run then 0xff else 0x00] @ more\<rparr>)) w
         | None \<Rightarrow> responseError encode frame response (getErrorByCode ILLEGAL_FUNCTION) w)
      else w)"

text \<open>
  The value that the fallback of the mask write hands to \<open>writeSingleRegister\<close>:
  \<open>(value & andMask) | (orMask & (~andMask & 0xff))\<close>.
\<close>

definition FC22_fallback_value :: "int \<Rightarrow> int \<Rightarrow> int \<Rightarrow> int" where
  "FC22_fallback_value val andMask orMask =
     js_or (js_and val andMask) (js_and orMask (js_and (js_not andMask) 0xff))"

text \<open>
  A callback called inside a \<open>then\<close> handler: what it throws is a rejection of the chain
  and reaches the \<open>catch\<close> as well.
\<close>

definition settle_in_then ::
  "'a Encode \<Rightarrow> Frame \<Rightarrow> ('a, 'd) Response \<Rightarrow> 'r Outcome \<times> 'd \<Rightarrow>
   ('r \<Rightarrow> ('a, 'd) World \<Rightarrow> ('a, 'd) World) \<Rightarrow> ('a, 'd) World \<Rightarrow> ('a, 'd) World" where
  "settle_in_then encode frame response result ok w =
     (case fst result of
        Thrown e \<Rightarrow> responseError encode frame response e (w\<lparr>dev := snd result\<rparr>)
      | Rejected e \<Rightarrow> responseError encode frame response e (w\<lparr>dev := snd result\<rparr>)
      | Resolved v \<Rightarrow> ok v (w\<lparr>dev := snd result\<rparr>))"

text \<open>
  \<open>([value]) => ...\<close> takes the first register read; of an empty array it takes
  \<open>undefined\<close>, which the bitwise operators read as 0.
\<close>

definition firstRegister :: "int list \<Rightarrow> int" where
  "firstRegister registers = (case registers of [] \<Rightarrow> 0 | v # rest \<Rightarrow> v)"

definition handleFC22 ::
  "'a Encode \<Rightarrow> 'd ModbusSlaveModel \<Rightarrow> Frame \<Rightarrow> ('a, 'd) Response \<Rightarrow> ('a, 'd) World \<Rightarrow> ('a, 'd) World" where
  "handleFC22 encode model frame response w =
     (if length (data frame) = 6 then
        (if maskWriteRegister model \<noteq> None
            \<or> (readHoldingRegisters model \<noteq> None \<and> writeSingleRegister model \<noteq> None) then
           (let bufferRx = Buffer_from (data frame);
                address = readUInt16BE bufferRx 0;
                andMask = readUInt16BE bufferRx 2;
                orMask = readUInt16BE bufferRx 4
            in if checkRange (Scalar address) (rangeOf holdingRegisters model) then
                 (case maskWriteRegister model of
                    Some callback \<Rightarrow>
                      settle encode frame response (callback address andMask orMask (dev w))
                        (\<lambda>u. respond encode frame response frame) w
                  | None \<Rightarrow>
                      (case readHoldingRegisters model of
                         None \<Rightarrow> w
                       | Some rd \<Rightarrow>
                           settle encode frame response (rd address 1 (dev w))
                             (\<lambda>registers w1.
                                case writeSingleRegister model of
                                  None \<Rightarrow>
                                    responseError encode frame response
                                      (Error ''model.writeSingleRegister is not a function'') w1
                                | Some wr \<Rightarrow>
                                    settle_in_then encode frame response
                                      (wr address (FC22_fallback_value (firstRegister registers) andMask orMask)
                                         (dev w1))
                                      (\<lambda>u. respond encode frame response frame) w1) w))
               else responseError encode frame response (getErrorByCode ILLEGAL_DATA_ADDRESS) w)
         else responseError encode frame response (getErrorByCode ILLEGAL_FUNCTION) w)
      else w)"

definition handleFC23 ::
  "'a Encode \<Rightarrow> 'd ModbusSlaveModel \<Rightarrow> Frame \<Rightarrow> ('a, 'd) Response \<Rightarrow> ('a, 'd) World \<Rightarrow> ('a, 'd) World" where
  "handleFC23 encode model frame response w =
     (if length (data frame) > 9 \<and> int (length (data frame)) = 9 + data frame ! 8 then
        (if readHoldingRegisters model \<noteq> None
            \<and> (writeMultipleRegisters model \<noteq> None \<or> writeSingleRegister model \<noteq> None) then
           (let bufferRx = Buffer_from (data frame);
                address_read = readUInt16BE bufferRx 0;
                address_write = readUInt16BE bufferRx 4;
                length_read = readUInt16BE bufferRx 2;
                length_write = readUInt16BE bufferRx 6;
                byteCount = readUInt8 bufferRx 8
            in if length_read \<ge> 0x0001 \<and> length_read \<le> 0x007d \<and> length_write \<ge> 0x0001
                  \<and> length_write \<le> 0x0079 \<and> byteCount = length_write * 2 then
                 (if checkRange
                       (Array [address_read, address_read + length_read,
                               address_write, address_write + length_write])
                       (rangeOf holdingRegisters model) then
                    (case readRegisters bufferRx 9 (nat length_write) of
                       Inl e \<Rightarrow> w
                     | Inr val \<Rightarrow>
                         settle encode frame response
                           (multiOrEach (writeMultipleRegisters model) (writeSingleRegister model)
                              address_write val (dev w))
                           (\<lambda>u w1.
                              case readHoldingRegisters model of
                                None \<Rightarrow>
                                  responseError encode frame response
                                    (Error ''model.readHoldingRegisters is not a function'') w1
                              | Some rd \<Rightarrow>
                                  settle_in_then encode frame response (rd address_read length_read (dev w1))
                                    (respondRegisters encode frame response length_read) w1) w)
                  else responseError encode frame response (getErrorByCode ILLEGAL_DATA_ADDRESS) w)
               else responseError encode frame response (getErrorByCode ILLEGAL_DATA_VALUE) w)
         else responseError encode frame response (getErrorByCode ILLEGAL_FUNCTION) w)
      else w)"

section \<open>Server: read device identification\<close>

text \<open>
  \<open>parseInt(key)\<close>: leading white space is skipped, then an optional sign, then an
  optional \<open>0x\<close> or \<open>0X\<close> that selects base 16, then the longest run of digits of the
  base; without a digit the result is \<open>NaN\<close> (\<open>None\<close>). The handler only compares the
  result with 0 and 255 and uses it as a key when it lies between them.
\<close>

definition isSpaceChar :: "char \<Rightarrow> bool" where
  "isSpaceChar c = ((of_char c :: nat) \<in> {9, 10, 11, 12, 13, 32, 160})"

definition digitOf :: "nat \<Rightarrow> char \<Rightarrow> nat option" where
  "digitOf radix c =
     (let n = (of_char c :: nat);
          v = (if 48 \<le> n \<and> n \<le> 57 then n - 48
               else if 97 \<le> n \<and> n \<le> 122 then n - 87
               else if 65 \<le> n \<and> n \<le> 90 then n - 55
               else 36)
      in if v < radix then Some v else None)"

fun parseDigits :: "nat \<Rightarrow> string \<Rightarrow> nat option \<Rightarrow> nat option" where
  "parseDigits radix [] acc = acc"
| "parseDigits radix (c # cs) acc =
     (case digitOf radix c of
        None \<Rightarrow> acc
      | Some v \<Rightarrow> parseDigits radix cs (Some ((case acc of None \<Rightarrow> 0 | Some a \<Rightarrow> a) * radix + v)))"

definition parseUnsigned :: "string \<Rightarrow> nat option" where
  "parseUnsigned s =
     (if take 2 s = ''0x'' \<or> take 2 s = ''0X'' then parseDigits 16 (drop 2 s) None
      else parseDigits 10 s None)"

definition parseInt :: "string \<Rightarrow> int option" where
  "parseInt key =
     (let s = dropWhile isSpaceChar key in
      case s of
        [] \<Rightarrow> None
      | c # cs \<Rightarrow>
          (if c = CHR ''-'' then map_option (\<lambda>n. - int n) (parseUnsigned cs)
           else if c = CHR ''+'' then map_option int (parseUnsigned cs)
           else map_option int (parseUnsigned s)))"

text \<open>A \<open>Map\<close> keeps its keys in insertion order; \<open>set\<close> on a present key keeps its place.\<close>

fun Map_set :: "('k \<times> 'v) list \<Rightarrow> 'k \<Rightarrow> 'v \<Rightarrow> ('k \<times> 'v) list" where
  "Map_set [] k v = [(k, v)]"
| "Map_set (e # es) k v = (if fst e = k then (k, v) # es else e # Map_set es k v)"

definition Map_has :: "('k \<times> 'v) list \<Rightarrow> 'k \<Rightarrow> bool" where
  "Map_has m k = (map_of m k \<noteq> None)"

text \<open>The loop over \<open>Object.entries(identification)\<close> that fills \<open>objects\<close>.\<close>

fun fillObjects :: "(int \<times> string) list \<Rightarrow> (string \<times> string) list \<Rightarrow> (int \<times> string) list" where
  "fillObjects objects [] = objects"
| "fillObjects objects (e # es) =
     (case parseInt (fst e) of
        None \<Rightarrow> fillObjects objects es
      | Some oid \<Rightarrow>
          (if oid \<ge> 0 \<and> oid \<le> 255 then fillObjects (Map_set objects oid (snd e)) es
           else fillObjects objects es))"

text \<open>
  The loop over \<open>objects.entries()\<close>. Its state is \<open>ids\<close>, \<open>totalLength\<close>, \<open>lastID\<close> and
  \<open>conformityLevel\<close>; it ends early with an exception code where the source calls
  \<open>responseError\<close> and returns.
\<close>

record ObjectLoop =
  ids :: "int list"
  totalLength :: int
  lastID :: int
  conformityLevel :: int

fun objectLoop :: "int \<Rightarrow> int \<Rightarrow> (int \<times> string) list \<Rightarrow> ObjectLoop \<Rightarrow> ErrorCode + ObjectLoop" where
  "objectLoop readDeviceIDCode objectID [] st = Inr st"
| "objectLoop readDeviceIDCode objectID (e # es) st =
     (let oid = fst e; val = snd e in
      if oid < 0x00 \<or> (oid \<ge> 0x07 \<and> oid \<le> 0x7f) \<or> oid > 0xff then Inl SERVER_DEVICE_FAILURE
      else
        (let st1 = (if oid > 0x02 then st\<lparr>conformityLevel := 0x82\<rparr> else st);
             st2 = (if oid > 0x80 then st1\<lparr>conformityLevel := 0x83\<rparr> else st1)
         in if objectID > oid then objectLoop readDeviceIDCode objectID es st2
            else if length val > 245 then Inl SERVER_DEVICE_FAILURE
            else if lastID st2 \<noteq> 0 then objectLoop readDeviceIDCode objectID es st2
            else if int (length val) + 2 > 253 - totalLength st2 then
              objectLoop readDeviceIDCode objectID es (st2\<lparr>lastID := oid\<rparr>)
            else
              (let st3 = st2\<lparr>totalLength := totalLength st2 + (int (length val) + 2),
                             ids := ids st2 @ [oid]\<rparr>
               in if readDeviceIDCode = 0x04 then Inr st3
                  else objectLoop readDeviceIDCode objectID es st3)))"

text \<open>\<open>Buffer.from(value)\<close> writes a string in UTF-8.\<close>

definition utf8 :: "string \<Rightarrow> int list" where
  "utf8 s =
     concat (map (\<lambda>c. let n = int (of_char c) in
                       if n < 128 then [n] else [192 + n div 64, 128 + n mod 64]) s)"

definition objectValue :: "(int \<times> string) list \<Rightarrow> int \<Rightarrow> string" where
  "objectValue objects oid = (case map_of objects oid of Some v \<Rightarrow> v | None \<Rightarrow> [])"

text \<open>The \<open>then\<close> handler of \<open>readDeviceIdentification\<close>.\<close>

definition respondIdentification ::
  "'a Encode \<Rightarrow> Frame \<Rightarrow> ('a, 'd) Response \<Rightarrow> int \<Rightarrow> int \<Rightarrow> (string \<times> string) list \<Rightarrow>
   ('a, 'd) World \<Rightarrow> ('a, 'd) World" where
  "respondIdentification encode frame response readDeviceIDCode objectID0 identification w =
     (let objects = fillObjects [(0x00, ''null''), (0x01, ''null''), (0x02, ''null'')] identification
      in if \<not> Map_has objects objectID0 \<and> readDeviceIDCode = 0x04 then
           responseError encode frame response (getErrorByCode ILLEGAL_DATA_ADDRESS) w
         else
           (let objectID = (if \<not> Map_has objects objectID0 then 0x00 else objectID0) in
            case objectLoop readDeviceIDCode objectID objects
                   \<lparr>ids = [], totalLength = 10, lastID = 0, conformityLevel = 0x81\<rparr> of
              Inl code \<Rightarrow> responseError encode frame response (getErrorByCode code) w
            | Inr st \<Rightarrow>
                respond encode frame response
                  (frame\<lparr>data :=
                     [0x0e, readDeviceIDCode, conformityLevel st,
                      if lastID st = 0 then 0x00 else 0xff, lastID st, int (length (ids st))]
                     @ concat (map (\<lambda>oid. [oid, int (length (objectValue objects oid))]
                                        @ utf8 (objectValue objects oid))
                                 (sort (ids st)))\<rparr>) w))"

definition handleFC43_14 ::
  "'a Encode \<Rightarrow> 'd ModbusSlaveModel \<Rightarrow> Frame \<Rightarrow> ('a, 'd) Response \<Rightarrow> ('a, 'd) World \<Rightarrow> ('a, 'd) World" where
  "handleFC43_14 encode model frame response w =
     (if length (data frame) = 3 then
        (case (if data frame ! 0 = 0x0e then readDeviceIdentification model else None) of
           Some callback \<Rightarrow>
             (let readDeviceIDCode = data frame ! 1;
                  objectID = data frame ! 2;
                  reserved = (objectID > 0x06 \<and> objectID < 0x80)
              in if readDeviceIDCode = 0x01 then
                   settle encode frame response (callback (dev w))
                     (respondIdentification encode frame response readDeviceIDCode
                        (if objectID > 0x02 \<or> reserved then 0x00 else objectID)) w
                 else if readDeviceIDCode = 0x02 then
                   settle encode frame response (callback (dev w))
                     (respondIdentification encode frame response readDeviceIDCode
                        (if objectID \<ge> 0x80 \<or> reserved then 0x00 else objectID)) w
                 else if readDeviceIDCode = 0x03 then
                   settle encode frame response (callback (dev w))
                     (respondIdentification encode frame response readDeviceIDCode
                        (if reserved then 0x00 else objectID)) w
                 else if readDeviceIDCode = 0x04 then
                   (if reserved then
                      responseError encode frame response (getErrorByCode ILLEGAL_DATA_ADDRESS) w
                    else
                      settle encode frame response (callback (dev w))
                        (respondIdentification encode frame response readDeviceIDCode objectID) w)
                 else responseError encode frame response (getErrorByCode ILLEGAL_DATA_VALUE) w)
         | None \<Rightarrow> responseError encode frame response (getErrorByCode ILLEGAL_FUNCTION) w)
      else w)"

section \<open>Server: dispatch\<close>

text \<open>The \<open>switch (frame.fc)\<close> of the closure \<open>handleFC\<close>.\<close>

definition handleFC ::
  "'a Encode \<Rightarrow> 'd ModbusSlaveModel \<Rightarrow> Frame \<Rightarrow> ('a, 'd) Response \<Rightarrow> ('a, 'd) World \<Rightarrow> ('a, 'd) World" where
  "handleFC encode model frame response w =
     (if fc frame = 0x01 then handleFC1 encode model frame response w
      else if fc frame = 0x02 then handleFC2 encode model frame response w
      else if fc frame = 0x03 then handleFC3 encode model frame response w
      else if fc frame = 0x04 then handleFC4 encode model frame response w
      else if fc frame = 0x05 then handleFC5 encode model frame response w
      else if fc frame = 0x06 then handleFC6 encode model frame response w
      else if fc frame = 0x0f then handleFC15 encode model frame response w
      else if fc frame = 0x10 then handleFC16 encode model frame response w
      else if fc frame = 0x11 then handleFC17 encode model frame response w
      else if fc frame = 0x16 then handleFC22 encode model frame response w
      else if fc frame = 0x17 then handleFC23 encode model frame response w
      else if fc frame = 0x2b then handleFC43_14 encode model frame response w
      else responseError encode frame response (getErrorByCode ILLEGAL_FUNCTION) w)"

text \<open>
  \<open>intercept(model).then((res) => { if (res !== 'break') handleFC(model) })\<close>. The
  interceptor runs inside \<open>try\<close>: what it throws or rejects, and what \<open>encode\<close> throws on
  its payload, ends in \<open>responseError\<close>.
\<close>

definition dispatch ::
  "'a Encode \<Rightarrow> 'd ModbusSlaveModel \<Rightarrow> Frame \<Rightarrow> ('a, 'd) Response \<Rightarrow> ('a, 'd) World \<Rightarrow> ('a, 'd) World" where
  "dispatch encode model frame response w =
     (case interceptor model of
        None \<Rightarrow> handleFC encode model frame response w
      | Some callback \<Rightarrow>
          settle_in_then encode frame response (callback (fc frame) (data frame) (dev w))
            (\<lambda>payload.
               case payload of
                 Some d \<Rightarrow> respond encode frame response (frame\<lparr>data := d\<rparr>)
               | None \<Rightarrow> handleFC encode model frame response) w)"

text \<open>
  \<open>models\<close> is a \<open>Map<number, ModbusSlaveModel>\<close>. The handler of the \<open>framing\<close> event
  ignores a frame for a unit that is neither 0 nor registered, and otherwise runs
  \<open>dispatch\<close> for every model (broadcast) or for the model of the unit. The models of a
  broadcast are run one after the other, in the order of the map.
\<close>

definition ModbusSlave_add ::
  "(int \<times> 'd ModbusSlaveModel) list \<Rightarrow> 'd ModbusSlaveModel \<Rightarrow> (int \<times> 'd ModbusSlaveModel) list" where
  "ModbusSlave_add models model =
     Map_set models (case model_unit model of Some u \<Rightarrow> u | None \<Rightarrow> 1) model"

definition ModbusSlave_remove ::
  "(int \<times> 'd ModbusSlaveModel) list \<Rightarrow> int \<Rightarrow> (int \<times> 'd ModbusSlaveModel) list" where
  "ModbusSlave_remove models u = filter (\<lambda>e. fst e \<noteq> u) models"

definition ModbusSlave_framing ::
  "'a Encode \<Rightarrow> (int \<times> 'd ModbusSlaveModel) list \<Rightarrow> Frame \<Rightarrow> ('a, 'd) World \<Rightarrow> ('a, 'd) World" where
  "ModbusSlave_framing encode models frame w =
     (if \<not> (unit frame = 0x00 \<or> Map_has models (unit frame)) then w
      else
        foldl (\<lambda>w1 model. dispatch encode model frame (response_closure frame) w1) w
          (if unit frame = 0x00 then map snd models
           else (case map_of models (unit frame) of Some model \<Rightarrow> [model] | None \<Rightarrow> [])))"

section \<open>Client (modbus-master.ts): waiting for the response\<close>

text \<open>
  \<open>waitResponse(request, response, timeout)\<close> writes the request and then, unless the
  request is a broadcast, arms the timer and calls \<open>startWaitingResponse\<close>. The client's
  view of the world: the buffers written on the transport, the response-wait registered at
  the application layer, the armed timer. The transport's \<open>write\<close> fulfils or rejects;
  its outcome is the argument \<open>written\<close>. The result is the state of the returned promise
  right after the write has settled.
\<close>

record Client =
  client_sent :: "Buffer list"
  client_waiting :: "PreCheck list option"
  client_timer :: "int option"

datatype 'v Promise = Pending | Fulfilled 'v | RejectedWith Error

record Request =
  request_data :: Buffer
  broadcast :: bool

definition waitResponse ::
  "Request \<Rightarrow> PreCheck list \<Rightarrow> int \<Rightarrow> Error option \<Rightarrow> Client \<Rightarrow> Frame option Promise \<times> Client" where
  "waitResponse request preCheck timeout written c =
     (case written of
        Some error \<Rightarrow> (RejectedWith error, c)
      | None \<Rightarrow>
          (if broadcast request then
             (Fulfilled None, c\<lparr>client_sent := client_sent c @ [request_data request]\<rparr>)
           else
             (Pending,
              c\<lparr>client_sent := client_sent c @ [request_data request],
                client_timer := Some timeout,
                client_waiting := Some preCheck\<rparr>)))"

text \<open>
  Every request method of the client has the same shape: it builds the PDU \<open>pdu\<close> and the
  pre-checks of its function code and returns
  \<open>this.waitResponse({ data: this.applicationLayer.encode({ unit, fc, data: pdu }), broadcast: unit === 0 }, { preCheck }, timeout)\<close>,
  followed by a \<open>then\<close> that decodes the frame when there is one. An \<open>encode\<close> that throws
  makes the method throw before anything is written.
\<close>

definition ModbusMaster_request ::
  "(ApplicationDataUnit \<Rightarrow> Error + Buffer) \<Rightarrow> int \<Rightarrow> int \<Rightarrow> int list \<Rightarrow> PreCheck list \<Rightarrow> int \<Rightarrow>
   Error option \<Rightarrow> Client \<Rightarrow> Error + (Frame option Promise \<times> Client)" where
  "ModbusMaster_request encode u f pdu preCheck timeout written c =
     (case encode \<lparr>transaction = None, unit = u, fc = f, data = pdu\<rparr> of
        Inl e \<Rightarrow> Inl e
      | Inr buf \<Rightarrow>
          Inr (waitResponse \<lparr>request_data = buf, broadcast = (u = 0)\<rparr> preCheck timeout written c))"

section \<open>Notions used to state the properties of the server\<close>

text \<open>A reply closure that hands nothing to the transport.\<close>

definition silent :: "('a, 'd) Response \<Rightarrow> bool" where
  "silent response = (\<forall>buf w. sent (response buf w) = sent w)"

text \<open>
  The exception response to a frame: \<open>response.fc = request.fc | 0x80\<close>,
  \<open>response.data = [exceptionCode]\<close>, everything else as in the request.
\<close>

definition exceptionADU :: "Frame \<Rightarrow> ErrorCode \<Rightarrow> Frame" where
  "exceptionADU frame code = frame\<lparr>fc := js_or (fc frame) 0x80, data := [ErrorCode_value code]\<rparr>"

text \<open>
  Encoding an ADU and handing the bytes to the reply closure; an ADU that \<open>encode\<close>
  refuses is not sent.
\<close>

definition send :: "'a Encode \<Rightarrow> ('a, 'd) Response \<Rightarrow> Frame \<Rightarrow> ('a, 'd) World \<Rightarrow> ('a, 'd) World" where
  "send encode response adu w =
     (case encode adu (app w) of Inl e \<Rightarrow> w | Inr r \<Rightarrow> response (fst r) (w\<lparr>app := snd r\<rparr>))"

text \<open>
  The PDU grammar of a request, by function code (each handler checks it first), and the
  callbacks that a model needs for a function code. A function code outside the twelve has
  no grammar and no callback.
\<close>

definition wellFormed :: "Frame \<Rightarrow> bool" where
  "wellFormed frame =
     (let n = length (data frame); f = fc frame in
      if f = 0x01 \<or> f = 0x02 \<or> f = 0x03 \<or> f = 0x04 \<or> f = 0x05 \<or> f = 0x06 then n = 4
      else if f = 0x0f \<or> f = 0x10 then n > 5 \<and> int n = 5 + data frame ! 4
      else if f = 0x11 then n = 0
      else if f = 0x16 then n = 6
      else if f = 0x17 then n > 9 \<and> int n = 9 + data frame ! 8
      else if f = 0x2b then n = 3 \<and> data frame ! 0 = 0x0e
      else True)"

definition implemented :: "'d ModbusSlaveModel \<Rightarrow> int \<Rightarrow> bool" where
  "implemented model f =
     (if f = 0x01 then readCoils model \<noteq> None
      else if f = 0x02 then readDiscreteInputs model \<noteq> None
      else if f = 0x03 then readHoldingRegisters model \<noteq> None
      else if f = 0x04 then readInputRegisters model \<noteq> None
      else if f = 0x05 then writeSingleCoil model \<noteq> None
      else if f = 0x06 then writeSingleRegister model \<noteq> None
      else if f = 0x0f then writeMultipleCoils model \<noteq> None \<or> writeSingleCoil model \<noteq> None
      else if f = 0x10 then writeMultipleRegisters model \<noteq> None \<or> writeSingleRegister model \<noteq> None
      else if f = 0x11 then reportServerId model \<noteq> None
      else if f = 0x16 then
        maskWriteRegister model \<noteq> None
        \<or> (readHoldingRegisters model \<noteq> None \<and> writeSingleRegister model \<noteq> None)
      else if f = 0x17 then
        readHoldingRegisters model \<noteq> None
        \<and> (writeMultipleRegisters model \<noteq> None \<or> writeSingleRegister model \<noteq> None)
      else if f = 0x2b then readDeviceIdentification model \<noteq> None
      else False)"

text \<open>An application layer whose \<open>encode\<close> has no state, as the server's encoder.\<close>

definition Encode_of :: "(Frame \<Rightarrow> Error + Buffer) \<Rightarrow> 'a Encode" where
  "Encode_of enc adu a = (case enc adu of Inl e \<Rightarrow> Inl e | Inr buf \<Rightarrow> Inr (buf, a))"

text \<open>The model \<open>{}\<close>: no callback, no unit, no address range.\<close>

definition emptyModel :: "'d ModbusSlaveModel" where
  "emptyModel =
     \<lparr>model_unit = None, interceptor = None, readDiscreteInputs = None, readCoils = None,
      writeSingleCoil = None, writeMultipleCoils = None, readInputRegisters = None,
      readHoldingRegisters = None, writeSingleRegister = None, writeMultipleRegisters = None,
      maskWriteRegister = None, reportServerId = None, readDeviceIdentification = None,
      getAddressRange = None\<rparr>"

text \<open>
  The mask write as the specification words it, on 16-bit values:
  \<open>(v AND andMask) OR (orMask AND NOT andMask)\<close>.
\<close>

definition maskWrite_spec :: "16 word \<Rightarrow> 16 word \<Rightarrow> 16 word \<Rightarrow> 16 word" where
  "maskWrite_spec v andMask orMask = (v AND andMask) OR (orMask AND NOT andMask)"

section \<open>Properties of the address range check\<close>

lemma checkRange_loop_degenerate:
  "list_all (\<lambda>r. snd r \<le> fst r) rs \<Longrightarrow> \<not> checkRange_loop v rs"
  by (induction rs) auto

text \<open>
  Claim C10. For every queried value or list of values: a single interval \<open>[lo, hi]\<close> with
  \<open>lo \<ge> hi\<close> is no restriction (the result is true); an empty list of intervals gives true;
  a non-empty list whose intervals all have \<open>lo \<ge> hi\<close> gives false for every query; and
  with no range configured the result is always true.
\<close>

theorem checkRange_edge_cases:
  "(hi \<le> lo \<longrightarrow> checkRange v (Some (Single lo hi)))
   \<and> checkRange v (Some (Multi []))
   \<and> (rs \<noteq> [] \<and> list_all (\<lambda>r. snd r \<le> fst r) rs \<longrightarrow> \<not> checkRange v (Some (Multi rs)))
   \<and> checkRange v None"
  by (simp add: checkRange_def checkRange_loop_degenerate)

theorem checkRange_edge_cases_witness:
  "checkRange (Array [1, 9]) (Some (Single 7 7))
   \<and> checkRange (Scalar 3) (Some (Multi []))
   \<and> \<not> checkRange (Array []) (Some (Multi [(5, 5), (9, 2)]))
   \<and> checkRange (Scalar 3) None"
  using checkRange_edge_cases [of 7 7 "Array [1, 9]"]
    checkRange_edge_cases [of 0 0 "Scalar 3"]
    checkRange_edge_cases [of 0 0 "Array []" "[(5, 5), (9, 2)]"]
  by simp

section \<open>Properties of the framers and encoders\<close>

lemma uint_byte_of_int: "0 \<le> v \<Longrightarrow> v \<le> 255 \<Longrightarrow> uint (word_of_int v :: byte) = v"
  by (simp add: uint_word_of_int_eq take_bit_int_eq_self)

lemma mask_255: "(255 :: 32 word) = mask 8" by (simp add: mask_eq_exp_minus_1)

lemma js_and_255: "js_and a 255 = a mod 256"
proof -
  have "(word_of_int a :: 32 word) AND 255 = word_of_int (take_bit 8 a)"
    by (simp only: mask_255 and_mask_wi)
  then have "js_and a 255 = signed_take_bit 31 (take_bit 8 a)"
    by (simp add: js_and_def sint_sbintrunc')
  also have "\<dots> = take_bit 8 a"
    by (simp only: signed_take_bit_take_bit) simp
  finally show ?thesis by (simp add: take_bit_eq_mod)
qed

lemma lrc_range: "0 \<le> lrc bs \<and> lrc bs \<le> 255"
  by (simp add: lrc_def js_and_255)

lemma writeUInt8_ok: "0 \<le> v \<Longrightarrow> v \<le> 255 \<Longrightarrow> writeUInt8 v = Inr [word_of_int v]"
  by (simp add: writeUInt8_def)

lemma writeUInt8_forEach_ok:
  "list_all (\<lambda>v. 0 \<le> v \<and> v \<le> 255) ds \<Longrightarrow> writeUInt8_forEach ds = Inr (map word_of_int ds)"
  by (induction ds) (simp_all add: writeUInt8_def)

lemma Array_from_bytes:
  "list_all (\<lambda>v. 0 \<le> v \<and> v \<le> 255) ds \<Longrightarrow> Array_from (map word_of_int ds) = ds"
  by (induction ds) (simp_all add: Array_from_def uint_byte_of_int)

lemma writeUInt16LE_uint: "writeUInt16LE (uint (c :: 16 word)) = Inr [word_of_int (uint c mod 256), word_of_int (uint c div 256)]"
proof -
  have "uint c < 2 ^ 16" using uint_lt2p [of c] by simp
  then show ?thesis by (simp add: writeUInt16LE_def)
qed

lemma readUInt16LE_pair:
  assumes "0 \<le> v" "v \<le> 65535"
  shows "readUInt16LE (xs @ [word_of_int (v mod 256), word_of_int (v div 256)]) (length xs) = v"
proof -
  have "uint (word_of_int (v mod 256) :: byte) = v mod 256"
    by (simp add: uint_word_of_int_eq take_bit_eq_mod)
  moreover have "uint (word_of_int (v div 256) :: byte) = v div 256"
    using assms by (intro uint_byte_of_int) auto
  ultimately show ?thesis by (simp add: readUInt16LE_def nth_append)
qed

lemma Rtu_roundtrip:
  assumes u: "0 \<le> unit d" "unit d \<le> 255" and f: "0 \<le> fc d" "fc d \<le> 255"
    and ds: "list_all (\<lambda>v. 0 \<le> v \<and> v \<le> 255) (data d)"
  shows "\<exists>buf. RtuApplicationLayer_encode crc d = Inr buf \<and>
           RtuApplicationLayer_framing crc None buf =
             Inr \<lparr>transaction = None, unit = unit d, fc = fc d, data = data d, buffer = buf\<rparr>"
proof -
  define hd2 where "hd2 = [word_of_int (unit d), word_of_int (fc d) :: byte]"
  define body where "body = hd2 @ map word_of_int (data d)"
  define c where "c = uint (crc body)"
  define buf where "buf = body @ [word_of_int (c mod 256), word_of_int (c div 256)]"
  have c_range: "0 \<le> c" "c \<le> 65535"
    using uint_lt2p [of "crc body"] by (simp_all add: c_def)
  have enc: "RtuApplicationLayer_encode crc d = Inr buf"
    using u f by (simp add: RtuApplicationLayer_encode_def bind_err_def writeUInt8_ok
        writeUInt8_forEach_ok [OF ds] writeUInt16LE_uint buf_def body_def hd2_def c_def)
  have len: "length buf = length (data d) + 4" "length body = length (data d) + 2"
    by (simp_all add: buf_def body_def hd2_def)
  have sub0: "subarray buf 0 (length buf - 2) = body"
    by (simp add: subarray_def buf_def)
  have sub2: "subarray buf 2 (length buf - 2) = map word_of_int (data d)"
    by (simp add: subarray_def buf_def body_def hd2_def)
  have rd: "readUInt16LE buf (length buf - 2) = c"
    using readUInt16LE_pair [OF c_range, of body] len by (simp add: buf_def)
  have r0: "readUInt8 buf 0 = unit d" "readUInt8 buf 1 = fc d"
    using u f by (simp_all add: readUInt8_def buf_def body_def hd2_def uint_byte_of_int)
  have "RtuApplicationLayer_framing crc None buf =
      Inr \<lparr>transaction = None, unit = unit d, fc = fc d, data = data d, buffer = buf\<rparr>"
    unfolding RtuApplicationLayer_framing_def Let_def sub0 sub2 rd r0
    using len(1) by (simp add: Array_from_bytes [OF ds] c_def)
  with enc show ?thesis by blast
qed

lemma readUInt16BE_pair:
  assumes "0 \<le> v" "v \<le> 65535" "i = length xs"
  shows "readUInt16BE (xs @ word_of_int (v div 256) # word_of_int (v mod 256) # ys) i = v"
proof -
  have "uint (word_of_int (v mod 256) :: byte) = v mod 256"
    by (simp add: uint_word_of_int_eq take_bit_eq_mod)
  moreover have "uint (word_of_int (v div 256) :: byte) = v div 256"
    using assms by (intro uint_byte_of_int) auto
  ultimately show ?thesis using assms(3) by (simp add: readUInt16BE_def nth_append)
qed

lemma Tcp_roundtrip:
  assumes t: "transaction d = Some t" "0 \<le> t" "t \<le> 65535"
    and n: "length (data d) \<le> 65533"
    and u: "0 \<le> unit d" "unit d \<le> 255" and f: "0 \<le> fc d" "fc d \<le> 255"
    and ds: "list_all (\<lambda>v. 0 \<le> v \<and> v \<le> 255) (data d)"
  shows "\<exists>buf this'. TcpApplicationLayer_encode d this = Inr (buf, this') \<and>
           TcpApplicationLayer_framing None buf =
             Inr \<lparr>transaction = Some t, unit = unit d, fc = fc d, data = data d, buffer = buf\<rparr>"
proof -
  define l where "l = int (length (data d)) + 2"
  define buf where "buf = [word_of_int (t div 256), word_of_int (t mod 256), 0, 0,
     word_of_int (l div 256), word_of_int (l mod 256), word_of_int (unit d), word_of_int (fc d) :: byte]
     @ map word_of_int (data d)"
  have l_range: "0 \<le> l" "l \<le> 65535" using n by (simp_all add: l_def)
  have enc: "\<exists>this'. TcpApplicationLayer_encode d this = Inr (buf, this')"
    using t u f l_range by (simp add: TcpApplicationLayer_encode_def bind_err_def writeUInt8_ok
        writeUInt8_forEach_ok [OF ds] writeUInt16BE_def buf_def l_def)
  have len: "length buf = length (data d) + 8" by (simp add: buf_def)
  have rt: "readUInt16BE buf 0 = t"
    using readUInt16BE_pair [OF t(2,3), of 0 "[]"] by (simp add: buf_def)
  have rl: "readUInt16BE buf 4 = l"
    using readUInt16BE_pair [OF l_range, of 4 "[word_of_int (t div 256), word_of_int (t mod 256), 0, 0]"]
    by (simp add: buf_def)
  have r0: "readUInt8 buf 6 = unit d" "readUInt8 buf 7 = fc d" "buf ! 2 = 0" "buf ! 3 = 0"
    using u f by (simp_all add: readUInt8_def buf_def uint_byte_of_int)
  have d8: "drop 8 buf = map word_of_int (data d)" by (simp add: buf_def)
  have "TcpApplicationLayer_framing None buf =
      Inr \<lparr>transaction = Some t, unit = unit d, fc = fc d, data = data d, buffer = buf\<rparr>"
    unfolding TcpApplicationLayer_framing_def Let_def rt rl r0 d8
    using len by (simp add: Array_from_bytes [OF ds] l_def)
  with enc show ?thesis by blast
qed

lemma uint_hexChar:
  assumes "0 \<le> n" "n < 16"
  shows "uint (hexChar n) = (if n < 10 then 48 + n else 55 + n)"
proof -
  have "uint (word_of_int (48 + n) :: byte) = 48 + n" if "n < 10"
    using that assms by (intro uint_byte_of_int) auto
  moreover have "uint (word_of_int (55 + n) :: byte) = 55 + n"
    using assms by (intro uint_byte_of_int) auto
  ultimately show ?thesis
    by (cases "n < 10") (simp_all only: hexChar_def if_True if_False)
qed

lemma hexDigit_hexChar: "0 \<le> n \<Longrightarrow> n < 16 \<Longrightarrow> hexDigit (hexChar n) = Some n"
  by (simp add: hexDigit_def uint_hexChar)

lemma hexChar_plain: "0 \<le> n \<Longrightarrow> n < 16 \<Longrightarrow> hexChar n \<noteq> COLON \<and> hexChar n \<noteq> CR"
proof -
  assume a: "0 \<le> n" "n < 16"
  have "uint (hexChar n) \<noteq> 58 \<and> uint (hexChar n) \<noteq> 13"
    using a by (simp add: uint_hexChar)
  then show ?thesis by (auto simp: COLON_def CR_def)
qed

lemma Number_0x_toHex2: "Number_0x (hexChar (uint v div 16)) (hexChar (uint v mod 16)) = (v :: byte)"
proof -
  have b: "0 \<le> uint v" "uint v < 256" using uint_lt2p [of v] by simp_all
  then have d: "0 \<le> uint v div 16" "uint v div 16 < 16" by (simp_all add: pos_imp_zdiv_nonneg_iff)
  have m: "0 \<le> uint v mod 16" "uint v mod 16 < 16" by simp_all
  show ?thesis
    by (simp add: Number_0x_def hexDigit_hexChar [OF d] hexDigit_hexChar [OF m])
qed

lemma hexPairs_toHex2: "hexPairs (concat (map toHex2 bs)) = bs"
  by (induction bs) (simp_all add: toHex2_def Number_0x_toHex2)

lemma toHex2_plain: "list_all (\<lambda>v. v \<noteq> COLON \<and> v \<noteq> CR) (concat (map toHex2 bs))"
proof (induction bs)
  case Nil
  show ?case by simp
next
  case (Cons v bs)
  have b: "0 \<le> uint v" "uint v < 256" using uint_lt2p [of v] by simp_all
  then have d: "0 \<le> uint v div 16" "uint v div 16 < 16" by (simp_all add: pos_imp_zdiv_nonneg_iff)
  have m: "0 \<le> uint v mod 16" "uint v mod 16 < 16" by simp_all
  show ?case using Cons hexChar_plain [OF d] hexChar_plain [OF m] by (simp add: toHex2_def)
qed

lemma length_toHex2: "length (concat (map toHex2 bs)) = 2 * length bs"
  by (induction bs) (simp_all add: toHex2_def)

lemma reception_run:
  "list_all (\<lambda>v. v \<noteq> COLON \<and> v \<noteq> CR) hs \<Longrightarrow>
   foldl (AsciiApplicationLayer_handleByte cb)
     (\<lparr>ascii_waitingResponse = w, ascii_status = reception, ascii_frame = acc\<rparr>, out) hs =
   (\<lparr>ascii_waitingResponse = w, ascii_status = reception, ascii_frame = acc @ hs\<rparr>, out)"
  by (induction hs arbitrary: acc) (simp_all add: AsciiApplicationLayer_handleByte_def)

lemma Ascii_roundtrip:
  assumes u: "0 \<le> unit d" "unit d \<le> 255" and f: "0 \<le> fc d" "fc d \<le> 255"
    and ds: "list_all (\<lambda>v. 0 \<le> v \<and> v \<le> 255) (data d)"
  shows "\<exists>buf hex. AsciiApplicationLayer_encode d = Inr buf \<and>
           AsciiApplicationLayer_handleData cb
             \<lparr>ascii_waitingResponse = None, ascii_status = idle, ascii_frame = acc\<rparr> buf =
             (\<lparr>ascii_waitingResponse = None, ascii_status = idle, ascii_frame = hex\<rparr>,
              [Framing \<lparr>transaction = None, unit = unit d, fc = fc d, data = data d, buffer = hex\<rparr>])"
proof -
  define body where "body = [word_of_int (unit d), word_of_int (fc d) :: byte] @ map word_of_int (data d)"
  define bytes where "bytes = body @ [word_of_int (lrc body)]"
  define hex where "hex = concat (map toHex2 bytes)"
  define buf where "buf = COLON # hex @ [CR, LF]"
  have enc: "AsciiApplicationLayer_encode d = Inr buf"
    using u f lrc_range [of body]
    by (simp add: AsciiApplicationLayer_encode_def bind_err_def writeUInt8_ok
        writeUInt8_forEach_ok [OF ds] buf_def hex_def bytes_def body_def)
  have len0: "length bytes = length (data d) + 3"
    by (simp add: bytes_def body_def)
  have len: "length hex = 2 * length (data d) + 6"
    unfolding hex_def length_toHex2 len0 by simp
  have pairs: "hexPairs hex = bytes" by (simp add: hex_def hexPairs_toHex2)
  have sub0: "subarray bytes 0 (length bytes - 1) = body"
    by (simp add: subarray_def bytes_def)
  have sub2: "subarray bytes 2 (length bytes - 1) = map word_of_int (data d)"
    by (simp add: subarray_def bytes_def body_def)
  have rl: "readUInt8 bytes (length bytes - 1) = lrc body"
    using lrc_range [of body] by (simp add: readUInt8_def bytes_def uint_byte_of_int)
  have r0: "readUInt8 bytes 0 = unit d" "readUInt8 bytes 1 = fc d"
    using u f by (simp_all add: readUInt8_def bytes_def body_def uint_byte_of_int)
  have fr: "AsciiApplicationLayer_framing None hex =
      Inr \<lparr>transaction = None, unit = unit d, fc = fc d, data = data d, buffer = hex\<rparr>"
    unfolding AsciiApplicationLayer_framing_def Let_def pairs sub0 sub2 rl r0
    using len by (simp add: Array_from_bytes [OF ds])
  have plain: "list_all (\<lambda>v. v \<noteq> COLON \<and> v \<noteq> CR) hex"
    by (simp add: hex_def toHex2_plain)
  have "AsciiApplicationLayer_handleData cb
          \<lparr>ascii_waitingResponse = None, ascii_status = idle, ascii_frame = acc\<rparr> buf =
        (\<lparr>ascii_waitingResponse = None, ascii_status = idle, ascii_frame = hex\<rparr>,
         [Framing \<lparr>transaction = None, unit = unit d, fc = fc d, data = data d, buffer = hex\<rparr>])"
    by (simp add: AsciiApplicationLayer_handleData_def buf_def
        AsciiApplicationLayer_handleByte_def [of cb "(\<lparr>ascii_waitingResponse = None, ascii_status = idle, ascii_frame = acc\<rparr>, [])"]
        reception_run [OF plain] fr AsciiApplicationLayer_handleByte_def [of cb "(\<lparr>ascii_waitingResponse = None, ascii_status = reception, ascii_frame = hex\<rparr>, [])"]
        AsciiApplicationLayer_handleByte_def [of cb "(\<lparr>ascii_waitingResponse = None, ascii_status = waiting_end, ascii_frame = hex\<rparr>, [])"]
        COLON_def CR_def LF_def)
  with enc show ?thesis by blast
qed

text \<open>
  Claim C1, as amended. For every ADU whose unit, function code and data bytes lie in
  0..255, each encoder returns bytes and the inbound path of the same variant decodes them
  to a frame with the same unit, function code and data: the RTU \<open>framing\<close> applied to the
  encoded buffer (the CRC check passes); the ASCII data handler, started in the idle state,
  which strips the colon and CR LF and hands the hexadecimal characters to \<open>framing\<close> (the
  LRC check passes), emitting exactly that frame; and, when the caller supplies a 16-bit
  transaction id and the data has at most 65533 bytes, the MBAP \<open>framing\<close> applied to the
  encoded buffer (the header checks pass), which also yields the same transaction id.
\<close>

theorem encode_framing_roundtrip:
  assumes "0 \<le> unit d" "unit d \<le> 255" "0 \<le> fc d" "fc d \<le> 255"
    and "list_all (\<lambda>v. 0 \<le> v \<and> v \<le> 255) (data d)"
  shows "(\<exists>buf. RtuApplicationLayer_encode crc d = Inr buf \<and>
            RtuApplicationLayer_framing crc None buf =
              Inr \<lparr>transaction = None, unit = unit d, fc = fc d, data = data d, buffer = buf\<rparr>)
       \<and> (\<exists>buf hex. AsciiApplicationLayer_encode d = Inr buf \<and>
            AsciiApplicationLayer_handleData cb
              \<lparr>ascii_waitingResponse = None, ascii_status = idle, ascii_frame = acc\<rparr> buf =
              (\<lparr>ascii_waitingResponse = None, ascii_status = idle, ascii_frame = hex\<rparr>,
               [Framing \<lparr>transaction = None, unit = unit d, fc = fc d, data = data d, buffer = hex\<rparr>]))
       \<and> (transaction d = Some t \<and> 0 \<le> t \<and> t \<le> 65535 \<and> length (data d) \<le> 65533 \<longrightarrow>
           (\<exists>buf this'. TcpApplicationLayer_encode d this = Inr (buf, this') \<and>
              TcpApplicationLayer_framing None buf =
                Inr \<lparr>transaction = Some t, unit = unit d, fc = fc d, data = data d, buffer = buf\<rparr>))"
  using Rtu_roundtrip [OF assms] Ascii_roundtrip [OF assms] Tcp_roundtrip [OF _ _ _ _ assms]
  by blast

theorem encode_framing_roundtrip_witness:
  "(\<exists>buf. RtuApplicationLayer_encode (\<lambda>b. 0x8776) \<lparr>transaction = Some 1, unit = 17, fc = 3, data = [0, 107, 0, 3]\<rparr> = Inr buf \<and>
            RtuApplicationLayer_framing (\<lambda>b. 0x8776) None buf =
              Inr \<lparr>transaction = None, unit = 17, fc = 3, data = [0, 107, 0, 3], buffer = buf\<rparr>)
       \<and> (\<exists>buf hex. AsciiApplicationLayer_encode \<lparr>transaction = Some 1, unit = 17, fc = 3, data = [0, 107, 0, 3]\<rparr> = Inr buf \<and>
            AsciiApplicationLayer_handleData (\<lambda>r this. this)
              \<lparr>ascii_waitingResponse = None, ascii_status = idle, ascii_frame = []\<rparr> buf =
              (\<lparr>ascii_waitingResponse = None, ascii_status = idle, ascii_frame = hex\<rparr>,
               [Framing \<lparr>transaction = None, unit = 17, fc = 3, data = [0, 107, 0, 3], buffer = hex\<rparr>]))
       \<and> (\<exists>buf this'. TcpApplicationLayer_encode \<lparr>transaction = Some 1, unit = 17, fc = 3, data = [0, 107, 0, 3]\<rparr> TcpApplicationLayer_init = Inr (buf, this') \<and>
              TcpApplicationLayer_framing None buf =
                Inr \<lparr>transaction = Some 1, unit = 17, fc = 3, data = [0, 107, 0, 3], buffer = buf\<rparr>)"
  using encode_framing_roundtrip [where d = "\<lparr>transaction = Some 1, unit = 17, fc = 3, data = [0, 107, 0, 3]\<rparr>"
      and t = 1 and crc = "\<lambda>b. 0x8776" and cb = "\<lambda>r this. this" and acc = "[]"
      and this = TcpApplicationLayer_init]
  by simp

text \<open>
  The claim as stated fails in two places. The MBAP encoder throws a range error on an ADU
  with 65534 data bytes, whose length field would be 65536. And the ASCII \<open>framing\<close> method
  itself, applied to the bytes that \<open>encode\<close> returns for unit 11, function code 1 and data
  00 13 00 13, reports \<open>Invalid data\<close>: it expects the characters between the colon and
  CR LF, and the encoded line has an odd number of bytes.
\<close>

theorem encode_framing_roundtrip_counterexample:
  "TcpApplicationLayer_encode \<lparr>transaction = Some 1, unit = 17, fc = 3, data = replicate 65534 0\<rparr>
     TcpApplicationLayer_init = Inl ERR_OUT_OF_RANGE
   \<and> AsciiApplicationLayer_encode \<lparr>transaction = None, unit = 11, fc = 1, data = [0, 19, 0, 19]\<rparr> =
       Inr [58, 48, 66, 48, 49, 48, 48, 49, 51, 48, 48, 49, 51, 67, 69, 13, 10]
   \<and> AsciiApplicationLayer_framing None
       [58, 48, 66, 48, 49, 48, 48, 49, 51, 48, 48, 49, 51, 67, 69, 13, 10] =
       Inl (Error ''Invalid data'')"
proof -
  have a: "TcpApplicationLayer_encode \<lparr>transaction = Some 1, unit = 17, fc = 3, data = replicate 65534 0\<rparr>
     TcpApplicationLayer_init = Inl ERR_OUT_OF_RANGE"
    by (simp add: TcpApplicationLayer_encode_def bind_err_def writeUInt16BE_def)
  have b: "AsciiApplicationLayer_encode \<lparr>transaction = None, unit = 11, fc = 1, data = [0, 19, 0, 19]\<rparr> =
       Inr [58, 48, 66, 48, 49, 48, 48, 49, 51, 48, 48, 49, 51, 67, 69, 13, 10]"
    by (simp add: AsciiApplicationLayer_encode_def bind_err_def writeUInt8_def lrc_def js_and_255
        js_not_def toHex2_def hexChar_def COLON_def CR_def LF_def)
  have c: "AsciiApplicationLayer_framing None
       [58, 48, 66, 48, 49, 48, 48, 49, 51, 48, 48, 49, 51, 67, 69, 13, 10] =
       Inl (Error ''Invalid data'')"
    by (simp add: AsciiApplicationLayer_framing_def)
  from a b c show ?thesis by blast
qed

section \<open>Properties of the pre-check pipeline\<close>

text \<open>
  Claim C2. A pre-check returns the integer N. The claim asks for \<open>Insufficient data length\<close>
  when the frame has fewer than N data bytes and for \<open>Invalid response\<close> when it has more.
  The RTU and the MBAP framer do the opposite: with three data bytes they report
  \<open>Invalid response\<close> for N = 5 and \<open>Insufficient data length\<close> for N = 2. The ASCII framer
  does what the claim says on the same data. With N = 0 and an empty PDU the pipeline does
  not continue: the test \<open>!res\<close> that follows is true for 0 (shown for the ASCII framer on
  a line whose LRC is right).
\<close>

theorem preCheck_length_comparison_inverted:
  "RtuApplicationLayer_framing crc (Some [\<lambda>frame. Number 5]) [1, 3, 2, 0, 0, 0, 0] =
     Inl (Error ''Invalid response'')
   \<and> RtuApplicationLayer_framing crc (Some [\<lambda>frame. Number 2]) [1, 3, 2, 0, 0, 0, 0] =
     Inl (Error ''Insufficient data length'')
   \<and> TcpApplicationLayer_framing (Some [\<lambda>frame. Number 5]) [0, 1, 0, 0, 0, 5, 1, 3, 2, 0, 0] =
     Inl (Error ''Invalid response'')
   \<and> TcpApplicationLayer_framing (Some [\<lambda>frame. Number 2]) [0, 1, 0, 0, 0, 5, 1, 3, 2, 0, 0] =
     Inl (Error ''Insufficient data length'')
   \<and> AsciiApplicationLayer_framing (Some [\<lambda>frame. Number 5]) [48, 49, 48, 51, 48, 50, 48, 48, 48, 48, 70, 65] =
     Inl (Error ''Insufficient data length'')
   \<and> AsciiApplicationLayer_framing (Some [\<lambda>frame. Number 2]) [48, 49, 48, 51, 48, 50, 48, 48, 48, 48, 70, 65] =
     Inl (Error ''Invalid response'')
   \<and> AsciiApplicationLayer_framing (Some [\<lambda>frame. Number 0]) [48, 66, 48, 49, 70, 52] =
     Inl (Error ''Invalid response'')
   \<and> AsciiApplicationLayer_framing None [48, 66, 48, 49, 70, 52] =
     Inr \<lparr>transaction = None, unit = 11, fc = 1, data = [], buffer = [48, 66, 48, 49, 70, 52]\<rparr>"
  by (simp add: RtuApplicationLayer_framing_def TcpApplicationLayer_framing_def
      AsciiApplicationLayer_framing_def subarray_def Array_from_def readUInt8_def readUInt16BE_def
      Number_0x_def hexDigit_def lrc_def js_and_255 js_not_def)

section \<open>Properties of the exception codes\<close>

lemma getCodeByError_getErrorByCode: "getCodeByError (getErrorByCode c) = Some (ErrorCode_value c)"
  by (cases c) (simp_all add: getCodeByError_def getErrorByCode_def PREFIX_def String_of_def digitChar_def
      Number_toString.simps Number_of_string_def digit_value_def)




section \<open>Properties of the transaction counter\<close>

lemma Tcp_encode_Inr:
  assumes "TcpApplicationLayer_encode d this = Inr (buf, this')"
  shows "\<exists>rest. buf = word_of_int ((case transaction d of Some t \<Rightarrow> t | None \<Rightarrow> tcp_transactionId this) div 256)
            # word_of_int ((case transaction d of Some t \<Rightarrow> t | None \<Rightarrow> tcp_transactionId this) mod 256) # rest"
    and "0 \<le> (case transaction d of Some t \<Rightarrow> t | None \<Rightarrow> tcp_transactionId this)"
    and "(case transaction d of Some t \<Rightarrow> t | None \<Rightarrow> tcp_transactionId this) \<le> 65535"
    and "tcp_transactionId this' =
          (if js_rem (tcp_transactionId this + 1) 256 = 0 then 1
           else js_rem (tcp_transactionId this + 1) 256)"
  using assms
  by (auto simp: TcpApplicationLayer_encode_def bind_err_def writeUInt16BE_def
      split: sum.splits if_splits)

lemma js_rem_nonneg: "0 \<le> a \<Longrightarrow> js_rem a 256 = a mod 256"
  by (simp add: js_rem_def sgn_if)

lemma Tcp_counter_step:
  assumes "1 \<le> tcp_transactionId this" "tcp_transactionId this \<le> 255"
  shows "1 \<le> tcp_transactionId (case TcpApplicationLayer_encode d this of Inl e \<Rightarrow> this | Inr r \<Rightarrow> snd r)
       \<and> tcp_transactionId (case TcpApplicationLayer_encode d this of Inl e \<Rightarrow> this | Inr r \<Rightarrow> snd r) \<le> 255"
proof (cases "TcpApplicationLayer_encode d this")
  case (Inl e)
  then show ?thesis using assms by simp
next
  case (Inr r)
  then have "TcpApplicationLayer_encode d this = Inr (fst r, snd r)" by simp
  from Tcp_encode_Inr(4) [OF this] assms Inr show ?thesis
    by (simp add: js_rem_nonneg) presburger
qed

lemma Tcp_counter_invariant:
  "1 \<le> tcp_transactionId this \<Longrightarrow> tcp_transactionId this \<le> 255 \<Longrightarrow>
   1 \<le> tcp_transactionId (TcpApplicationLayer_encode_calls ds this)
   \<and> tcp_transactionId (TcpApplicationLayer_encode_calls ds this) \<le> 255"
proof (induction ds arbitrary: this)
  case Nil
  then show ?case by simp
next
  case (Cons d ds)
  from Tcp_counter_step [OF Cons.prems, of d] Cons.IH show ?case by simp
qed

text \<open>
  Claim C8. On a layer that has gone through any sequence of \<open>encode\<close> calls since its
  creation, a call that returns writes into the header the transaction id of its ADU, or
  the counter when the ADU has none; it advances the counter to
  \<open>(counter + 1) mod 256\<close>, with 1 in place of 0; and the counter, hence every id assigned
  from it, lies in 1..255 before and after the call.
\<close>

theorem transaction_id_assignment:
  assumes "this = TcpApplicationLayer_encode_calls ds TcpApplicationLayer_init"
    and "TcpApplicationLayer_encode d this = Inr (buf, this')"
  shows "readUInt16BE buf 0 = (case transaction d of Some t \<Rightarrow> t | None \<Rightarrow> tcp_transactionId this)
       \<and> tcp_transactionId this' =
           (if (tcp_transactionId this + 1) mod 256 = 0 then 1 else (tcp_transactionId this + 1) mod 256)
       \<and> 1 \<le> tcp_transactionId this \<and> tcp_transactionId this \<le> 255
       \<and> 1 \<le> tcp_transactionId this' \<and> tcp_transactionId this' \<le> 255"
proof -
  have inv: "1 \<le> tcp_transactionId this \<and> tcp_transactionId this \<le> 255"
    unfolding assms(1) by (rule Tcp_counter_invariant) (simp_all add: TcpApplicationLayer_init_def)
  obtain rest where buf: "buf = word_of_int ((case transaction d of Some t \<Rightarrow> t | None \<Rightarrow> tcp_transactionId this) div 256)
            # word_of_int ((case transaction d of Some t \<Rightarrow> t | None \<Rightarrow> tcp_transactionId this) mod 256) # rest"
    using Tcp_encode_Inr(1) [OF assms(2)] by blast
  have rd: "readUInt16BE buf 0 = (case transaction d of Some t \<Rightarrow> t | None \<Rightarrow> tcp_transactionId this)"
    using readUInt16BE_pair [OF Tcp_encode_Inr(2,3) [OF assms(2)], of 0 "[]" rest] buf by simp
  have step: "tcp_transactionId this' =
           (if (tcp_transactionId this + 1) mod 256 = 0 then 1 else (tcp_transactionId this + 1) mod 256)"
    using Tcp_encode_Inr(4) [OF assms(2)] inv by (simp add: js_rem_nonneg)
  have "1 \<le> tcp_transactionId this' \<and> tcp_transactionId this' \<le> 255"
    using step inv by presburger
  with rd step inv show ?thesis by blast
qed

theorem transaction_id_assignment_witness:
  "TcpApplicationLayer_encode \<lparr>transaction = None, unit = 17, fc = 3, data = [0, 107, 0, 3]\<rparr>
     (TcpApplicationLayer_encode_calls
        [\<lparr>transaction = Some 7, unit = 1, fc = 3, data = [0, 0, 0, 1]\<rparr>] TcpApplicationLayer_init)
     = Inr ([0, 2, 0, 0, 0, 6, 17, 3, 0, 107, 0, 3], \<lparr>tcp_waitingResponse = None, tcp_transactionId = 3\<rparr>)
   \<and> readUInt16BE [0, 2, 0, 0, 0, 6, 17, 3, 0, 107, 0, 3] 0 = 2"
  using transaction_id_assignment [where ds = "[\<lparr>transaction = Some 7, unit = 1, fc = 3, data = [0, 0, 0, 1]\<rparr>]"
      and d = "\<lparr>transaction = None, unit = 17, fc = 3, data = [0, 107, 0, 3]\<rparr>"
      and this = "\<lparr>tcp_waitingResponse = None, tcp_transactionId = 2\<rparr>"
      and buf = "[0, 2, 0, 0, 0, 6, 17, 3, 0, 107, 0, 3]"
      and this' = "\<lparr>tcp_waitingResponse = None, tcp_transactionId = 3\<rparr>"]
  by (simp add: TcpApplicationLayer_encode_def TcpApplicationLayer_init_def bind_err_def
      writeUInt16BE_def writeUInt8_def js_rem_def)

section \<open>Properties of the ASCII scanner at close\<close>

text \<open>
  In the layer with response-wait mode, the first byte after a close is read in the idle
  state: only a colon starts a frame.
\<close>

lemma AsciiApplicationLayer_close_then_idle:
  "AsciiApplicationLayer_handleByte cb (AsciiApplicationLayer_handleClose this, out) v =
     (if v = COLON then (this\<lparr>ascii_status := reception, ascii_frame := []\<rparr>, out)
      else (this\<lparr>ascii_status := idle, ascii_frame := []\<rparr>, out))"
  by (simp add: AsciiApplicationLayer_handleByte_def AsciiApplicationLayer_handleClose_def)

text \<open>
  Claim C9. After the close handler the scanner is to be idle with an empty buffer. The
  layer without response-wait mode sets the state to \<open>reception\<close> instead: after a close,
  a burst without a colon (\<open>0B0100130013CE\<close>, CR, LF) is framed and emitted.
\<close>

theorem AsciiApplicationLayer0_close_leaves_reception:
  "ascii0_status (AsciiApplicationLayer0_handleClose \<lparr>ascii0_status = idle, ascii0_frame = []\<rparr>) = reception
   \<and> AsciiApplicationLayer0_handleData
       (AsciiApplicationLayer0_handleClose \<lparr>ascii0_status = idle, ascii0_frame = []\<rparr>)
       [48, 66, 48, 49, 48, 48, 49, 51, 48, 48, 49, 51, 67, 69, 13, 10] =
     (\<lparr>ascii0_status = idle, ascii0_frame = [48, 66, 48, 49, 48, 48, 49, 51, 48, 48, 49, 51, 67, 69]\<rparr>,
      [Framing \<lparr>transaction = None, unit = 11, fc = 1, data = [0, 19, 0, 19],
                buffer = [48, 66, 48, 49, 48, 48, 49, 51, 48, 48, 49, 51, 67, 69]\<rparr>])"
  by (simp add: AsciiApplicationLayer0_handleClose_def AsciiApplicationLayer0_handleData_def
      AsciiApplicationLayer0_handleByte_def AsciiApplicationLayer0_framing_def COLON_def CR_def LF_def
      Number_0x_def hexDigit_def subarray_def readUInt8_def Array_from_def lrc_def js_and_255 js_not_def)

section \<open>Properties of the server: broadcast\<close>

lemma responseError_sent:
  "silent response \<Longrightarrow> sent (responseError encode frame response error w) = sent w"
  by (simp add: responseError_def silent_def split: option.splits sum.splits)

lemma respond_sent:
  "silent response \<Longrightarrow> sent (respond encode frame response adu w) = sent w"
  by (simp add: respond_def silent_def responseError_sent split: sum.splits)

lemma settle_sent:
  "silent response \<Longrightarrow> (\<And>v w1. sent (ok v w1) = sent w1) \<Longrightarrow>
   sent (settle encode frame response result ok w) = sent w"
  by (simp add: settle_def responseError_sent split: Outcome.splits)

lemma settle_in_then_sent:
  "silent response \<Longrightarrow> (\<And>v w1. sent (ok v w1) = sent w1) \<Longrightarrow>
   sent (settle_in_then encode frame response result ok w) = sent w"
  by (simp add: settle_in_then_def responseError_sent split: Outcome.splits)

lemma respondRegisters_sent:
  "silent response \<Longrightarrow> sent (respondRegisters encode frame response len registers w) = sent w"
  by (simp add: respondRegisters_def responseError_sent respond_sent split: sum.splits)

lemma respondIdentification_sent:
  "silent response \<Longrightarrow>
   sent (respondIdentification encode frame response code objectID identification w) = sent w"
  by (simp add: respondIdentification_def Let_def responseError_sent respond_sent split: sum.splits)

lemmas sent_simps = responseError_sent respond_sent settle_sent settle_in_then_sent
  respondRegisters_sent respondIdentification_sent

lemma handleFC1_sent: "silent response \<Longrightarrow> sent (handleFC1 encode model frame response w) = sent w"
  by (simp add: handleFC1_def Let_def sent_simps split: option.splits)

lemma handleFC2_sent: "silent response \<Longrightarrow> sent (handleFC2 encode model frame response w) = sent w"
  by (simp add: handleFC2_def Let_def sent_simps split: option.splits)

lemma handleFC3_sent: "silent response \<Longrightarrow> sent (handleFC3 encode model frame response w) = sent w"
  by (simp add: handleFC3_def Let_def sent_simps split: option.splits)

lemma handleFC4_sent: "silent response \<Longrightarrow> sent (handleFC4 encode model frame response w) = sent w"
  by (simp add: handleFC4_def Let_def sent_simps split: option.splits)

lemma handleFC5_sent: "silent response \<Longrightarrow> sent (handleFC5 encode model frame response w) = sent w"
  by (simp add: handleFC5_def Let_def sent_simps split: option.splits)

lemma handleFC6_sent: "silent response \<Longrightarrow> sent (handleFC6 encode model frame response w) = sent w"
  by (simp add: handleFC6_def Let_def sent_simps split: option.splits)

lemma handleFC15_sent: "silent response \<Longrightarrow> sent (handleFC15 encode model frame response w) = sent w"
  by (simp add: handleFC15_def Let_def sent_simps split: option.splits)

lemma handleFC16_sent: "silent response \<Longrightarrow> sent (handleFC16 encode model frame response w) = sent w"
  by (simp add: handleFC16_def Let_def sent_simps split: option.splits sum.splits)

lemma handleFC17_sent: "silent response \<Longrightarrow> sent (handleFC17 encode model frame response w) = sent w"
  by (simp add: handleFC17_def Let_def sent_simps split: option.splits)

lemma handleFC22_sent: "silent response \<Longrightarrow> sent (handleFC22 encode model frame response w) = sent w"
  by (simp add: handleFC22_def Let_def sent_simps split: option.splits)

lemma handleFC23_sent: "silent response \<Longrightarrow> sent (handleFC23 encode model frame response w) = sent w"
  by (simp add: handleFC23_def Let_def sent_simps split: option.splits sum.splits)

lemma handleFC43_14_sent: "silent response \<Longrightarrow> sent (handleFC43_14 encode model frame response w) = sent w"
  by (simp add: handleFC43_14_def Let_def sent_simps split: option.splits)

lemma handleFC_sent: "silent response \<Longrightarrow> sent (handleFC encode model frame response w) = sent w"
  by (simp add: handleFC_def handleFC1_sent handleFC2_sent handleFC3_sent handleFC4_sent
      handleFC5_sent handleFC6_sent handleFC15_sent handleFC16_sent handleFC17_sent
      handleFC22_sent handleFC23_sent handleFC43_14_sent responseError_sent)

lemma dispatch_sent: "silent response \<Longrightarrow> sent (dispatch encode model frame response w) = sent w"
  by (simp add: dispatch_def handleFC_sent sent_simps split: option.splits)

lemma broadcast_silent: "unit frame = 0 \<Longrightarrow> silent (response_closure frame)"
  by (simp add: silent_def response_closure_def)

lemma foldl_dispatch_sent:
  "silent response \<Longrightarrow>
   sent (foldl (\<lambda>w1 model. dispatch encode model frame response w1) w ms) = sent w"
  by (induction ms arbitrary: w) (simp_all add: dispatch_sent)

lemma ModbusSlave_framing_broadcast_sent:
  "unit frame = 0 \<Longrightarrow> sent (ModbusSlave_framing encode models frame w) = sent w"
  by (simp add: ModbusSlave_framing_def foldl_dispatch_sent broadcast_silent)

text \<open>
  Claim C3. For a frame with unit 0 the reply closure of the handlers does nothing, and
  whatever the models, their interceptors and callbacks and the function code are, the
  server hands no buffer to the transport. A client request with unit 0 registers no
  response-wait and arms no timer, whatever the write does, and its promise is fulfilled
  (with no frame) once the write has completed.
\<close>

theorem broadcast_suppression:
  assumes "unit frame = 0"
  shows "response_closure frame buf w = w
       \<and> sent (ModbusSlave_framing encode models frame w) = sent w
       \<and> (ModbusMaster_request enc 0 f pdu preCheck timeout written c = Inr (p, c') \<longrightarrow>
            client_waiting c' = client_waiting c \<and> client_timer c' = client_timer c
            \<and> (written = None \<longrightarrow> p = Fulfilled None))"
proof -
  have "response_closure frame buf w = w"
    using assms by (simp add: response_closure_def)
  moreover have "sent (ModbusSlave_framing encode models frame w) = sent w"
    using assms by (rule ModbusSlave_framing_broadcast_sent)
  moreover have "ModbusMaster_request enc 0 f pdu preCheck timeout written c = Inr (p, c') \<longrightarrow>
            client_waiting c' = client_waiting c \<and> client_timer c' = client_timer c
            \<and> (written = None \<longrightarrow> p = Fulfilled None)"
    by (auto simp: ModbusMaster_request_def waitResponse_def split: sum.splits option.splits)
  ultimately show ?thesis by blast
qed

theorem broadcast_suppression_witness:
  "response_closure \<lparr>transaction = None, unit = 0, fc = 6, data = [0, 1, 0, 7], buffer = []\<rparr> [0, 6, 0, 1, 0, 7, 0, 0]
     \<lparr>app = (), dev = (0 :: int), sent = [], unmodelled = False\<rparr>
     = \<lparr>app = (), dev = 0, sent = [], unmodelled = False\<rparr>
   \<and> sent (ModbusSlave_framing (Encode_of (RtuApplicationLayer_encode (\<lambda>b. 0)))
        [(1, emptyModel\<lparr>writeSingleRegister := Some (\<lambda>a v d. (Resolved (), v))\<rparr>), (2, emptyModel)]
        \<lparr>transaction = None, unit = 0, fc = 6, data = [0, 1, 0, 7], buffer = []\<rparr>
        \<lparr>app = (), dev = (0 :: int), sent = [], unmodelled = False\<rparr>) = []
   \<and> ModbusMaster_request (RtuApplicationLayer_encode (\<lambda>b. 0)) 0 6 [0, 1, 0, 7] [] 1000 None
        \<lparr>client_sent = [], client_waiting = None, client_timer = None\<rparr>
      = Inr (Fulfilled None,
             \<lparr>client_sent = [[0, 6, 0, 1, 0, 7, 0, 0]], client_waiting = None, client_timer = None\<rparr>)"
  using broadcast_suppression [where frame = "\<lparr>transaction = None, unit = 0, fc = 6, data = [0, 1, 0, 7], buffer = []\<rparr>"
      and buf = "[0, 6, 0, 1, 0, 7, 0, 0]" and w = "\<lparr>app = (), dev = (0 :: int), sent = [], unmodelled = False\<rparr>"
      and encode = "Encode_of (RtuApplicationLayer_encode (\<lambda>b. 0))"
      and models = "[(1, emptyModel\<lparr>writeSingleRegister := Some (\<lambda>a v d. (Resolved (), v))\<rparr>), (2, emptyModel)]"
      and enc = "RtuApplicationLayer_encode (\<lambda>b. 0)" and f = 6 and pdu = "[0, 1, 0, 7]" and preCheck = "[]"
      and timeout = 1000 and written = None and c = "\<lparr>client_sent = [], client_waiting = None, client_timer = None\<rparr>"
      and p = "Fulfilled None"
      and c' = "\<lparr>client_sent = [[0, 6, 0, 1, 0, 7, 0, 0]], client_waiting = None, client_timer = None\<rparr>"]
  by (simp add: ModbusMaster_request_def waitResponse_def RtuApplicationLayer_encode_def bind_err_def
      writeUInt8_def writeUInt16LE_def)

section \<open>Properties of the server: functions that a model does not implement\<close>

lemma responseError_code:
  "responseError encode frame response (getErrorByCode c) w = send encode response (exceptionADU frame c) w"
  by (simp add: responseError_def getCodeByError_getErrorByCode send_def exceptionADU_def)

lemma FC1_absent: "length (data frame) = 4 \<Longrightarrow> readCoils model = None \<Longrightarrow>
  handleFC1 encode model frame response w = responseError encode frame response (getErrorByCode ILLEGAL_FUNCTION) w"
  by (simp add: handleFC1_def)

lemma FC2_absent: "length (data frame) = 4 \<Longrightarrow> readDiscreteInputs model = None \<Longrightarrow>
  handleFC2 encode model frame response w = responseError encode frame response (getErrorByCode ILLEGAL_FUNCTION) w"
  by (simp add: handleFC2_def)

lemma FC3_absent: "length (data frame) = 4 \<Longrightarrow> readHoldingRegisters model = None \<Longrightarrow>
  handleFC3 encode model frame response w = responseError encode frame response (getErrorByCode ILLEGAL_FUNCTION) w"
  by (simp add: handleFC3_def)

lemma FC4_absent: "length (data frame) = 4 \<Longrightarrow> readInputRegisters model = None \<Longrightarrow>
  handleFC4 encode model frame response w = responseError encode frame response (getErrorByCode ILLEGAL_FUNCTION) w"
  by (simp add: handleFC4_def)

lemma FC5_absent: "length (data frame) = 4 \<Longrightarrow> writeSingleCoil model = None \<Longrightarrow>
  handleFC5 encode model frame response w = responseError encode frame response (getErrorByCode ILLEGAL_FUNCTION) w"
  by (simp add: handleFC5_def)

lemma FC6_absent: "length (data frame) = 4 \<Longrightarrow> writeSingleRegister model = None \<Longrightarrow>
  handleFC6 encode model frame response w = responseError encode frame response (getErrorByCode ILLEGAL_FUNCTION) w"
  by (simp add: handleFC6_def)

lemma FC15_absent: "length (data frame) > 5 \<Longrightarrow> int (length (data frame)) = 5 + data frame ! 4 \<Longrightarrow>
  writeMultipleCoils model = None \<Longrightarrow> writeSingleCoil model = None \<Longrightarrow>
  handleFC15 encode model frame response w = responseError encode frame response (getErrorByCode ILLEGAL_FUNCTION) w"
  by (simp add: handleFC15_def)

lemma FC16_absent: "length (data frame) > 5 \<Longrightarrow> int (length (data frame)) = 5 + data frame ! 4 \<Longrightarrow>
  writeMultipleRegisters model = None \<Longrightarrow> writeSingleRegister model = None \<Longrightarrow>
  handleFC16 encode model frame response w = responseError encode frame response (getErrorByCode ILLEGAL_FUNCTION) w"
  by (simp add: handleFC16_def)

lemma FC17_absent: "length (data frame) = 0 \<Longrightarrow> reportServerId model = None \<Longrightarrow>
  handleFC17 encode model frame response w = responseError encode frame response (getErrorByCode ILLEGAL_FUNCTION) w"
  by (simp add: handleFC17_def)

lemma FC22_absent: "length (data frame) = 6 \<Longrightarrow> maskWriteRegister model = None \<Longrightarrow>
  readHoldingRegisters model = None \<or> writeSingleRegister model = None \<Longrightarrow>
  handleFC22 encode model frame response w = responseError encode frame response (getErrorByCode ILLEGAL_FUNCTION) w"
  by (auto simp add: handleFC22_def)

lemma FC23_absent: "length (data frame) > 9 \<Longrightarrow> int (length (data frame)) = 9 + data frame ! 8 \<Longrightarrow>
  readHoldingRegisters model = None \<or> (writeMultipleRegisters model = None \<and> writeSingleRegister model = None) \<Longrightarrow>
  handleFC23 encode model frame response w = responseError encode frame response (getErrorByCode ILLEGAL_FUNCTION) w"
  by (auto simp add: handleFC23_def)

lemma FC43_14_absent: "length (data frame) = 3 \<Longrightarrow> readDeviceIdentification model = None \<Longrightarrow>
  handleFC43_14 encode model frame response w = responseError encode frame response (getErrorByCode ILLEGAL_FUNCTION) w"
  by (simp add: handleFC43_14_def)

text \<open>
  Claim C4. For a well-formed request whose function code the model does not implement
  (a callback it needs is absent, or the code is none of the twelve), the handler encodes
  and hands to its reply closure the exception ADU of the request for ILLEGAL_FUNCTION: the
  function code is the request's with the high bit set, the data is the single byte 0x01,
  the unit and the transaction id are the request's.
\<close>

theorem illegal_function_response:
  assumes wf: "wellFormed frame" and ni: "\<not> implemented model (fc frame)"
  shows "handleFC encode model frame response w =
           send encode response (exceptionADU frame ILLEGAL_FUNCTION) w
       \<and> fc (exceptionADU frame ILLEGAL_FUNCTION) = js_or (fc frame) 0x80
       \<and> data (exceptionADU frame ILLEGAL_FUNCTION) = [0x01]
       \<and> unit (exceptionADU frame ILLEGAL_FUNCTION) = unit frame
       \<and> transaction (exceptionADU frame ILLEGAL_FUNCTION) = transaction frame"
proof -
  consider "fc frame = 0x01" | "fc frame = 0x02" | "fc frame = 0x03" | "fc frame = 0x04"
    | "fc frame = 0x05" | "fc frame = 0x06" | "fc frame = 0x0f" | "fc frame = 0x10"
    | "fc frame = 0x11" | "fc frame = 0x16" | "fc frame = 0x17" | "fc frame = 0x2b"
    | "fc frame \<notin> {0x01, 0x02, 0x03, 0x04, 0x05, 0x06, 0x0f, 0x10, 0x11, 0x16, 0x17, 0x2b}"
    by blast
  then have "handleFC encode model frame response w =
          responseError encode frame response (getErrorByCode ILLEGAL_FUNCTION) w"
  proof cases
    case 1 with wf ni show ?thesis by (simp add: handleFC_def wellFormed_def implemented_def Let_def FC1_absent)
  next
    case 2 with wf ni show ?thesis by (simp add: handleFC_def wellFormed_def implemented_def Let_def FC2_absent)
  next
    case 3 with wf ni show ?thesis by (simp add: handleFC_def wellFormed_def implemented_def Let_def FC3_absent)
  next
    case 4 with wf ni show ?thesis by (simp add: handleFC_def wellFormed_def implemented_def Let_def FC4_absent)
  next
    case 5 with wf ni show ?thesis by (simp add: handleFC_def wellFormed_def implemented_def Let_def FC5_absent)
  next
    case 6 with wf ni show ?thesis by (simp add: handleFC_def wellFormed_def implemented_def Let_def FC6_absent)
  next
    case 7 with wf ni show ?thesis by (simp add: handleFC_def wellFormed_def implemented_def Let_def FC15_absent)
  next
    case 8 with wf ni show ?thesis by (simp add: handleFC_def wellFormed_def implemented_def Let_def FC16_absent)
  next
    case 9 with wf ni show ?thesis by (simp add: handleFC_def wellFormed_def implemented_def Let_def FC17_absent)
  next
    case 10 with wf ni show ?thesis by (simp add: handleFC_def wellFormed_def implemented_def Let_def FC22_absent)
  next
    case 11 with wf ni show ?thesis by (simp add: handleFC_def wellFormed_def implemented_def Let_def FC23_absent)
  next
    case 12 with wf ni show ?thesis by (simp add: handleFC_def wellFormed_def implemented_def Let_def FC43_14_absent)
  next
    case 13 then show ?thesis by (simp add: handleFC_def)
  qed
  then show ?thesis by (simp add: responseError_code exceptionADU_def)
qed

theorem illegal_function_response_witness:
  "wellFormed \<lparr>transaction = None, unit = 1, fc = 3, data = [0, 0, 0, 1], buffer = []\<rparr>
   \<and> \<not> implemented (emptyModel\<lparr>readCoils := Some (\<lambda>a n d. (Resolved [True], d))\<rparr> :: int ModbusSlaveModel) 3
   \<and> sent (handleFC (Encode_of (RtuApplicationLayer_encode (\<lambda>b. 0)))
              (emptyModel\<lparr>readCoils := Some (\<lambda>a n d. (Resolved [True], d))\<rparr>)
              \<lparr>transaction = None, unit = 1, fc = 3, data = [0, 0, 0, 1], buffer = []\<rparr>
              (response_closure \<lparr>transaction = None, unit = 1, fc = 3, data = [0, 0, 0, 1], buffer = []\<rparr>)
              \<lparr>app = (), dev = (0 :: int), sent = [], unmodelled = False\<rparr>)
       = [[1, 0x83, 1, 0, 0]]"
  using illegal_function_response [where frame = "\<lparr>transaction = None, unit = 1, fc = 3, data = [0, 0, 0, 1], buffer = []\<rparr>"
      and model = "emptyModel\<lparr>readCoils := Some (\<lambda>a n d. (Resolved [True], d))\<rparr> :: int ModbusSlaveModel"
      and encode = "Encode_of (RtuApplicationLayer_encode (\<lambda>b. 0))"
      and response = "response_closure \<lparr>transaction = None, unit = 1, fc = 3, data = [0, 0, 0, 1], buffer = []\<rparr>"
      and w = "\<lparr>app = (), dev = (0 :: int), sent = [], unmodelled = False\<rparr>"]
  by (simp add: wellFormed_def implemented_def emptyModel_def send_def exceptionADU_def Encode_of_def
      RtuApplicationLayer_encode_def bind_err_def writeUInt8_def writeUInt16LE_def js_or_def
      response_closure_def)

section \<open>Properties of the server: read coils\<close>


lemma bit_one_shifted: "n < 8 \<Longrightarrow> bit (push_bit m 1 :: byte) n = (n = m)"
  by (auto simp: bit_exp_iff possible_bit_word)







section \<open>Properties of the server: the fallback of the mask write\<close>

text \<open>
  Claim C6. The fallback is to write \<open>(v AND andMask) OR (orMask AND NOT andMask)\<close> with
  the 16-bit complement of the mask. The handler computes
  \<open>(value & andMask) | (orMask & (~andMask & 0xff))\<close>: with the register at 0x1200, the
  masks 0x00FF and 0x2500 and a model that has only \<open>readHoldingRegisters\<close> and
  \<open>writeSingleRegister\<close>, it writes 0 where the specification gives 0x2500.
\<close>

theorem FC22_fallback_truncates_mask:
  "dev (handleFC22 (Encode_of (RtuApplicationLayer_encode (\<lambda>b. 0)))
         (emptyModel\<lparr>readHoldingRegisters := Some (\<lambda>a n d. (Resolved [d], d)),
                       writeSingleRegister := Some (\<lambda>a v d. (Resolved (), v))\<rparr>)
         \<lparr>transaction = None, unit = 1, fc = 0x16, data = [0, 4, 0x00, 0xFF, 0x25, 0x00], buffer = []\<rparr>
         (response_closure \<lparr>transaction = None, unit = 1, fc = 0x16, data = [0, 4, 0x00, 0xFF, 0x25, 0x00], buffer = []\<rparr>)
         \<lparr>app = (), dev = 0x1200, sent = [], unmodelled = False\<rparr>) = 0
   \<and> FC22_fallback_value 0x1200 0x00FF 0x2500 = 0
   \<and> uint (maskWrite_spec 0x1200 0x00FF 0x2500) = 0x2500"
proof -
  have v: "FC22_fallback_value 0x1200 0x00FF 0x2500 = 0"
    by (simp add: FC22_fallback_value_def js_and_def js_or_def js_not_def)
  have "dev (handleFC22 (Encode_of (RtuApplicationLayer_encode (\<lambda>b. 0)))
         (emptyModel\<lparr>readHoldingRegisters := Some (\<lambda>a n d. (Resolved [d], d)),
                       writeSingleRegister := Some (\<lambda>a v d. (Resolved (), v))\<rparr>)
         \<lparr>transaction = None, unit = 1, fc = 0x16, data = [0, 4, 0x00, 0xFF, 0x25, 0x00], buffer = []\<rparr>
         (response_closure \<lparr>transaction = None, unit = 1, fc = 0x16, data = [0, 4, 0x00, 0xFF, 0x25, 0x00], buffer = []\<rparr>)
         \<lparr>app = (), dev = 0x1200, sent = [], unmodelled = False\<rparr>) = 0"
    by (simp add: handleFC22_def emptyModel_def Buffer_from_def readUInt16BE_def checkRange_def rangeOf_def
      settle_def settle_in_then_def respond_def Encode_of_def RtuApplicationLayer_encode_def bind_err_def
      writeUInt8_def writeUInt16LE_def response_closure_def firstRegister_def v)
  moreover have "uint (maskWrite_spec 0x1200 0x00FF 0x2500) = 0x2500"
    by (simp add: maskWrite_spec_def)
  ultimately show ?thesis using v by blast
qed

theorem FC22_fallback_truncates_mask_witness:
  "FC22_fallback_value 0x1200 0x00FF 0x2500 \<noteq> uint (maskWrite_spec 0x1200 0x00FF 0x2500)"
  using FC22_fallback_truncates_mask by simp

end
